theory Spec2Isabelle
  imports Main
begin

section \<open>Values the script handles\<close>

text \<open>
  The script \<^verbatim>\<open>monitor-sepolia.js\<close> is embedded with every effect made explicit. Strings
  are \<^typ>\<open>string\<close>; a JavaScript value that may be \<^verbatim>\<open>undefined\<close> or \<^verbatim>\<open>null\<close> is an
  \<^typ>\<open>'a option\<close>. Addresses and hashes are ASCII hexadecimal text, so lower-casing acts
  on the letters A to Z and leaves every other character alone.
\<close>

definition lower_char :: "char \<Rightarrow> char" where
  "lower_char c =
     (case map_of (zip ''ABCDEFGHIJKLMNOPQRSTUVWXYZ'' ''abcdefghijklmnopqrstuvwxyz'') c of
        None \<Rightarrow> c
      | Some d \<Rightarrow> d)"

definition toLowerCase :: "string \<Rightarrow> string" where
  "toLowerCase s = map lower_char s"

text \<open>\<^verbatim>\<open>x || ''\<close>: an absent or empty string reads as the empty string.\<close>

definition or_empty :: "string option \<Rightarrow> string" where
  "or_empty x = (case x of None \<Rightarrow> [] | Some s \<Rightarrow> s)"

text \<open>Truthiness of a string-valued expression: defined and not empty.\<close>

definition truthy :: "string option \<Rightarrow> bool" where
  "truthy x = (case x of None \<Rightarrow> False | Some s \<Rightarrow> s \<noteq> [])"

text \<open>\<^verbatim>\<open>t.type || 'call'\<close>.\<close>

definition or_call :: "string option \<Rightarrow> string" where
  "or_call x = (if truthy x then or_empty x else ''call'')"

text \<open>\<^verbatim>\<open>xs.slice(-5)\<close>: the last five elements, all of them when there are fewer.\<close>

definition slice_last5 :: "'a list \<Rightarrow> 'a list" where
  "slice_last5 xs = drop (length xs - 5) xs"

text \<open>What a \<^verbatim>\<open>throw\<close> can carry in this script.\<close>

datatype exn =
    NetworkError string
  | EtherscanNormalError string
  | EtherscanInternalError string
  | SyntaxError
  | RangeError
  | RpcError string

section \<open>The indexing API\<close>

datatype action = txlist | txlistinternal

text \<open>The query parameters of one GET, as \<^verbatim>\<open>URLSearchParams\<close> receives them.\<close>

record request =
  rq_module :: string
  rq_action :: action
  rq_address :: string
  rq_startblock :: nat
  rq_endblock :: nat
  rq_page :: nat
  rq_offset :: nat
  rq_sort :: string
  rq_apikey :: "string option"

text \<open>One entry of \<^verbatim>\<open>data.result\<close>, with the fields the script reads.\<close>

record etx =
  e_hash :: string
  e_blockNumber :: nat
  e_timeStamp :: string
  e_from :: string
  e_to :: string
  e_value :: string
  e_input :: "string option"
  e_type :: "string option"
  e_traceId :: "string option"

text \<open>The response body \<^verbatim>\<open>data\<close>; \<open>result\<close> is \<open>None\<close> when the field is absent or null.\<close>

record response =
  status :: string
  message :: string
  result :: "etx list option"

section \<open>The chain head source\<close>

text \<open>A transaction object, with the fields the script reads.\<close>

record tx =
  tx_hash :: string
  tx_from :: "string option"
  tx_to :: "string option"
  tx_value :: "int option"

text \<open>
  An element of \<^verbatim>\<open>block.transactions\<close> is a JavaScript value: a transaction object, or a
  hash string. Reading \<^verbatim>\<open>from\<close>, \<^verbatim>\<open>to\<close>, \<^verbatim>\<open>hash\<close> or \<^verbatim>\<open>value\<close> off a string gives
  \<^verbatim>\<open>undefined\<close>.
\<close>

datatype entry = HashOnly string | FullTx tx

definition entry_hash :: "entry \<Rightarrow> string option" where
  "entry_hash x = (case x of HashOnly h \<Rightarrow> None | FullTx t \<Rightarrow> Some (tx_hash t))"

definition entry_from :: "entry \<Rightarrow> string option" where
  "entry_from x = (case x of HashOnly h \<Rightarrow> None | FullTx t \<Rightarrow> tx_from t)"

definition entry_to :: "entry \<Rightarrow> string option" where
  "entry_to x = (case x of HashOnly h \<Rightarrow> None | FullTx t \<Rightarrow> tx_to t)"

definition entry_value :: "entry \<Rightarrow> int option" where
  "entry_value x = (case x of HashOnly h \<Rightarrow> None | FullTx t \<Rightarrow> tx_value t)"

text \<open>
  The block object of the provider library. The script imports \<^verbatim>\<open>WebSocketProvider\<close>,
  \<^verbatim>\<open>JsonRpcProvider\<close> and \<^verbatim>\<open>formatEther\<close> from the top level of \<^verbatim>\<open>ethers\<close>, which is
  the interface of version 6. There \<^verbatim>\<open>getBlock(n, true)\<close> keeps the full transactions
  under \<^verbatim>\<open>prefetchedTransactions\<close>, and \<^verbatim>\<open>transactions\<close> lists the hashes, as it does
  without the second argument. The script reads \<^verbatim>\<open>transactions\<close> only.
\<close>

record block =
  transactions :: "entry list option"
  prefetchedTransactions :: "tx list"

text \<open>A block as that library hands it out for the given transactions.\<close>

definition ethers_block :: "tx list \<Rightarrow> block" where
  "ethers_block txs =
     \<lparr>transactions = Some (map (\<lambda>t. HashOnly (tx_hash t)) txs), prefetchedTransactions = txs\<rparr>"

text \<open>
  What the event loop hands to the script once the listeners are registered: a new block
  number from the provider, the completion of the call that the \<open>i\<close>-th handling in
  flight is waiting for, or the closing of the websocket.
\<close>

datatype event = NewBlock nat | Reply nat | Closed

text \<open>
  A run of \<^verbatim>\<open>handleBlock\<close> that is suspended at one of its two \<^verbatim>\<open>await\<close>s: its argument,
  the call it waits for, and the position of that call among the calls of its kind.
\<close>

datatype stage = AwaitingBlock | AwaitingInternal

record task =
  t_block :: nat
  t_stage :: stage
  t_call :: nat

section \<open>Environment and process state\<close>

text \<open>
  Everything outside the script is a parameter: the four environment variables, the
  answer of the \<open>k\<close>-th \<^verbatim>\<open>axios.get\<close> and of the \<open>k\<close>-th \<^verbatim>\<open>http.getBlock\<close>, the
  built-ins \<^verbatim>\<open>BigInt\<close>, \<^verbatim>\<open>new Date(Number(s)*1000).toISOString()\<close> and \<^verbatim>\<open>formatEther\<close>
  (\<open>None\<close> where they throw), and whether the provider object has a \<^verbatim>\<open>_websocket\<close> field.
\<close>

record env =
  WS_RPC_SEPOLIA :: "string option"
  HTTP_RPC_SEPOLIA :: "string option"
  ADDRESS :: "string option"
  ETHERSCAN_API_KEY :: "string option"
  axios_get :: "nat \<Rightarrow> request \<Rightarrow> exn + response"
  http_getBlock :: "nat \<Rightarrow> nat \<Rightarrow> exn + block option"
  js_BigInt :: "string \<Rightarrow> int option"
  js_toISOString :: "string \<Rightarrow> string option"
  formatEther :: "int \<Rightarrow> string option"
  has_websocket :: bool

text \<open>
  Console output is kept line by line. A line is the statement's template, named after
  its text, with the interpolated values.
\<close>

datatype template =
    T_missing_env
  | T_fetching_normal | T_found_normal | T_hist_normal
  | T_fetching_internal | T_found_internal | T_hist_internal
  | T_hist_block_time | T_hist_from | T_hist_to | T_hist_value | T_hist_input | T_hist_type
  | T_new_normal | T_new_internal
  | T_block | T_hash | T_parent_tx | T_from | T_to | T_value_eth | T_type | T_trace_id
  | T_internal_fetch_error | T_live_monitoring | T_block_error | T_ws_closed | T_fatal

datatype arg = S string | N nat | Undefined | E exn

datatype line = Log template "arg list" | Err template "arg list"

definition opt_arg :: "string option \<Rightarrow> arg" where
  "opt_arg x = (case x of None \<Rightarrow> Undefined | Some s \<Rightarrow> S s)"

text \<open>
  The observable state of the process: the console, the GET requests sent, the block
  numbers asked of \<^verbatim>\<open>http.getBlock\<close>, the websocket connections opened, the listeners
  registered on the provider and on its socket, the exit code once the process has
  exited, the handlings of blocks that are in flight, and whether the websocket has
  closed.
\<close>

record world =
  console :: "line list"
  requests :: "request list"
  getBlock_calls :: "nat list"
  ws_connects :: nat
  block_listeners :: nat
  close_listeners :: nat
  exit_code :: "nat option"
  pending :: "task list"
  ws_closed :: bool

definition console_log :: "template \<Rightarrow> arg list \<Rightarrow> world \<Rightarrow> world" where
  "console_log t as w = w\<lparr>console := console w @ [Log t as]\<rparr>"

definition console_error :: "template \<Rightarrow> arg list \<Rightarrow> world \<Rightarrow> world" where
  "console_error t as w = w\<lparr>console := console w @ [Err t as]\<rparr>"

definition WATCH :: "env \<Rightarrow> string" where
  "WATCH en = toLowerCase (or_empty (ADDRESS en))"

section \<open>Helpers\<close>

text \<open>\<^verbatim>\<open>fmtEth\<close>: \<^verbatim>\<open>formatEther(wei ?? 0n)\<close>, and \<^verbatim>\<open>'0'\<close> when that throws.\<close>

definition fmtEth :: "env \<Rightarrow> int option \<Rightarrow> string" where
  "fmtEth en wei =
     (case formatEther en (case wei of None \<Rightarrow> 0 | Some v \<Rightarrow> v) of
        None \<Rightarrow> ''0''
      | Some s \<Rightarrow> s)"

text \<open>A loop whose body may throw: the first exception ends it.\<close>

fun forEach :: "('a \<Rightarrow> world \<Rightarrow> world \<times> (exn + unit)) \<Rightarrow> 'a list \<Rightarrow> world \<Rightarrow> world \<times> (exn + unit)" where
  "forEach f [] w = (w, Inr ())"
| "forEach f (x # xs) w =
     (case f x w of
        (w', Inl e) \<Rightarrow> (w', Inl e)
      | (w', Inr u) \<Rightarrow> forEach f xs w')"

section \<open>Etherscan history fetchers\<close>

text \<open>\<^verbatim>\<open>data.result || []\<close>.\<close>

definition result_or_empty :: "response \<Rightarrow> etx list" where
  "result_or_empty data = (case result data of None \<Rightarrow> [] | Some r \<Rightarrow> r)"

definition fetch_request :: "env \<Rightarrow> action \<Rightarrow> string \<Rightarrow> nat \<Rightarrow> nat \<Rightarrow> nat \<Rightarrow> request" where
  "fetch_request en a address startBlock endBlock offset =
     \<lparr>rq_module = ''account'', rq_action = a, rq_address = address,
      rq_startblock = startBlock, rq_endblock = endBlock,
      rq_page = 1, rq_offset = offset, rq_sort = ''asc'',
      rq_apikey = ETHERSCAN_API_KEY en\<rparr>"

definition fetchNormalTxs :: "env \<Rightarrow> string \<Rightarrow> nat \<Rightarrow> nat \<Rightarrow> nat \<Rightarrow> world \<Rightarrow> world \<times> (exn + etx list)" where
  "fetchNormalTxs en address startBlock endBlock offset w =
     (let params = fetch_request en txlist address startBlock endBlock offset;
          w' = w\<lparr>requests := requests w @ [params]\<rparr>
      in case axios_get en (length (requests w)) params of
           Inl e \<Rightarrow> (w', Inl e)
         | Inr data \<Rightarrow>
             if status data \<noteq> ''1'' \<and> message data \<noteq> ''No transactions found''
             then (w', Inl (EtherscanNormalError (message data)))
             else (w', Inr (result_or_empty data)))"

definition fetchInternalTxs :: "env \<Rightarrow> string \<Rightarrow> nat \<Rightarrow> nat \<Rightarrow> nat \<Rightarrow> world \<Rightarrow> world \<times> (exn + etx list)" where
  "fetchInternalTxs en address startBlock endBlock offset w =
     (let params = fetch_request en txlistinternal address startBlock endBlock offset;
          w' = w\<lparr>requests := requests w @ [params]\<rparr>
      in case axios_get en (length (requests w)) params of
           Inl e \<Rightarrow> (w', Inl e)
         | Inr data \<Rightarrow>
             if status data \<noteq> ''1'' \<and> message data \<noteq> ''No transactions found''
             then (w', Inl (EtherscanInternalError (message data)))
             else (w', Inr (result_or_empty data)))"

section \<open>Print history\<close>

text \<open>
  The body of the first \<^verbatim>\<open>forEach\<close>. A template literal is evaluated before its
  \<^verbatim>\<open>console.log\<close> runs, so a throwing \<^verbatim>\<open>toISOString\<close> or \<^verbatim>\<open>BigInt\<close> leaves the lines
  before it printed and prints nothing more.
\<close>

definition print_hist_normal :: "env \<Rightarrow> etx \<Rightarrow> world \<Rightarrow> world \<times> (exn + unit)" where
  "print_hist_normal en t w =
     (let w1 = console_log T_hist_normal [S (e_hash t)] w
      in case js_toISOString en (e_timeStamp t) of
           None \<Rightarrow> (w1, Inl RangeError)
         | Some isoTime \<Rightarrow>
             (let w2 = console_log T_hist_block_time [N (e_blockNumber t), S isoTime] w1;
                  w3 = console_log T_hist_from [S (e_from t)] w2;
                  w4 = console_log T_hist_to [S (e_to t)] w3
              in case js_BigInt en (e_value t) of
                   None \<Rightarrow> (w4, Inl SyntaxError)
                 | Some v \<Rightarrow>
                     (let w5 = console_log T_hist_value [S (fmtEth en (Some v))] w4
                      in if truthy (e_input t) \<and> or_empty (e_input t) \<noteq> ''0x''
                         then (console_log T_hist_input [S (take 18 (or_empty (e_input t)))] w5, Inr ())
                         else (w5, Inr ()))))"

definition print_hist_internal :: "env \<Rightarrow> etx \<Rightarrow> world \<Rightarrow> world \<times> (exn + unit)" where
  "print_hist_internal en t w =
     (let w1 = console_log T_hist_internal [S (e_hash t)] w
      in case js_toISOString en (e_timeStamp t) of
           None \<Rightarrow> (w1, Inl RangeError)
         | Some isoTime \<Rightarrow>
             (let w2 = console_log T_hist_block_time [N (e_blockNumber t), S isoTime] w1;
                  w3 = console_log T_hist_from [S (e_from t)] w2;
                  w4 = console_log T_hist_to [S (e_to t)] w3
              in case js_BigInt en (e_value t) of
                   None \<Rightarrow> (w4, Inl SyntaxError)
                 | Some v \<Rightarrow>
                     (let w5 = console_log T_hist_value [S (fmtEth en (Some v))] w4
                      in (console_log T_hist_type [S (or_call (e_type t))] w5, Inr ()))))"

definition printHistory :: "env \<Rightarrow> string \<Rightarrow> world \<Rightarrow> world \<times> (exn + unit)" where
  "printHistory en address w =
     (let w1 = console_log T_fetching_normal [S address] w
      in case fetchNormalTxs en address 0 99999999 10000 w1 of
           (w2, Inl e) \<Rightarrow> (w2, Inl e)
         | (w2, Inr normal) \<Rightarrow>
             (let w3 = console_log T_found_normal [N (length normal)] w2
              in case forEach (print_hist_normal en) (slice_last5 normal) w3 of
                   (w4, Inl e) \<Rightarrow> (w4, Inl e)
                 | (w4, Inr u) \<Rightarrow>
                     (let w5 = console_log T_fetching_internal [S address] w4
                      in case fetchInternalTxs en address 0 99999999 10000 w5 of
                           (w6, Inl e) \<Rightarrow> (w6, Inl e)
                         | (w6, Inr internal) \<Rightarrow>
                             (let w7 = console_log T_found_internal [N (length internal)] w6
                              in forEach (print_hist_internal en) (slice_last5 internal) w7))))"

section \<open>Live monitor\<close>

text \<open>The six lines printed for a matching element of \<^verbatim>\<open>block.transactions\<close>.\<close>

definition print_new_normal :: "env \<Rightarrow> nat \<Rightarrow> entry \<Rightarrow> line list" where
  "print_new_normal en blockNumber t =
     [Log T_new_normal [],
      Log T_block [N blockNumber],
      Log T_hash [opt_arg (entry_hash t)],
      Log T_from [opt_arg (entry_from t)],
      Log T_to [opt_arg (entry_to t)],
      Log T_value_eth [S (fmtEth en (Some (case entry_value t of None \<Rightarrow> 0 | Some v \<Rightarrow> v)))]]"

text \<open>The test \<^verbatim>\<open>from === WATCH || to === WATCH\<close> on the two lower-cased fields.\<close>

definition involves_WATCH :: "env \<Rightarrow> entry \<Rightarrow> bool" where
  "involves_WATCH en t =
     (let from_lc = toLowerCase (or_empty (entry_from t));
          to_lc = toLowerCase (or_empty (entry_to t))
      in from_lc = WATCH en \<or> to_lc = WATCH en)"

text \<open>The \<^verbatim>\<open>for (const tx of block.transactions)\<close> loop; nothing in its body throws.\<close>

fun normal_loop :: "env \<Rightarrow> nat \<Rightarrow> entry list \<Rightarrow> world \<Rightarrow> world" where
  "normal_loop en blockNumber [] w = w"
| "normal_loop en blockNumber (t # ts) w =
     (if involves_WATCH en t
      then normal_loop en blockNumber ts
             (w\<lparr>console := console w @ print_new_normal en blockNumber t\<rparr>)
      else normal_loop en blockNumber ts w)"

definition print_new_internal :: "env \<Rightarrow> etx \<Rightarrow> world \<Rightarrow> world \<times> (exn + unit)" where
  "print_new_internal en t w =
     (let w1 = console_log T_new_internal [] w;
          w2 = console_log T_block [N (e_blockNumber t)] w1;
          w3 = console_log T_parent_tx [S (e_hash t)] w2;
          w4 = console_log T_from [S (e_from t)] w3;
          w5 = console_log T_to [S (e_to t)] w4
      in case js_BigInt en (e_value t) of
           None \<Rightarrow> (w5, Inl SyntaxError)
         | Some v \<Rightarrow>
             (let w6 = console_log T_value_eth [S (fmtEth en (Some v))] w5;
                  w7 = console_log T_type [S (or_call (e_type t))] w6
              in if truthy (e_traceId t)
                 then (console_log T_trace_id [S (or_empty (e_traceId t))] w7, Inr ())
                 else (w7, Inr ())))"

text \<open>The \<^verbatim>\<open>try\<close> block of the internal step, before its \<^verbatim>\<open>catch\<close>.\<close>

definition internal_try :: "env \<Rightarrow> nat \<Rightarrow> world \<Rightarrow> world \<times> (exn + unit)" where
  "internal_try en blockNumber w =
     (case fetchInternalTxs en (WATCH en) blockNumber blockNumber 1000 w of
        (w1, Inl e) \<Rightarrow> (w1, Inl e)
      | (w1, Inr ints) \<Rightarrow> forEach (print_new_internal en) ints w1)"

definition handleBlock :: "env \<Rightarrow> nat \<Rightarrow> world \<Rightarrow> world \<times> (exn + unit)" where
  "handleBlock en blockNumber w =
     (let w1 = w\<lparr>getBlock_calls := getBlock_calls w @ [blockNumber]\<rparr>
      in case http_getBlock en (length (getBlock_calls w)) blockNumber of
           Inl e \<Rightarrow> (w1, Inl e)
         | Inr blk \<Rightarrow>
             (let w2 = (case blk of
                          None \<Rightarrow> w1
                        | Some b \<Rightarrow>
                            (case transactions b of
                               None \<Rightarrow> w1
                             | Some txs \<Rightarrow> normal_loop en blockNumber txs w1))
              in case internal_try en blockNumber w2 of
                   (w3, Inl e) \<Rightarrow> (console_error T_internal_fetch_error [E e] w3, Inr ())
                 | (w3, Inr u) \<Rightarrow> (w3, Inr ())))"

text \<open>The listener given to \<^verbatim>\<open>ws.on('block', ...)\<close>.\<close>

definition block_listener :: "env \<Rightarrow> nat \<Rightarrow> world \<Rightarrow> world" where
  "block_listener en bn w =
     (case handleBlock en bn w of
        (w', Inl e) \<Rightarrow> console_error T_block_error [E e] w'
      | (w', Inr u) \<Rightarrow> w')"

text \<open>The listener given to \<^verbatim>\<open>ws._websocket?.on('close', ...)\<close>.\<close>

definition close_listener :: "world \<Rightarrow> world" where
  "close_listener w = console_log T_ws_closed [] w"

definition liveMonitor :: "env \<Rightarrow> string \<Rightarrow> world \<Rightarrow> world \<times> (exn + unit)" where
  "liveMonitor en address w =
     (let w1 = console_log T_live_monitoring [S address] w;
          w2 = w1\<lparr>block_listeners := block_listeners w1 + 1\<rparr>;
          w3 = (if has_websocket en then w2\<lparr>close_listeners := close_listeners w2 + 1\<rparr> else w2)
      in (w3, Inr ()))"

section \<open>The process\<close>

text \<open>
  The functions above describe a handling that nothing interrupts. In the running script
  the block listener is \<^verbatim>\<open>async\<close> and the provider does not wait for it: a handling runs
  up to its next \<^verbatim>\<open>await\<close> and is resumed when the awaited call completes, and between
  the two the event loop may start or resume other handlings. The three pieces of
  \<^verbatim>\<open>handleBlock\<close> between its \<^verbatim>\<open>await\<close>s follow.

  The first piece calls \<^verbatim>\<open>http.getBlock\<close> and suspends (line 80).
\<close>

definition handleBlock_start :: "nat \<Rightarrow> world \<Rightarrow> world" where
  "handleBlock_start blockNumber w =
     w\<lparr>getBlock_calls := getBlock_calls w @ [blockNumber],
       pending := pending w @ [\<lparr>t_block = blockNumber, t_stage = AwaitingBlock,
                                t_call = length (getBlock_calls w)\<rparr>]\<rparr>"

definition remove_nth :: "nat \<Rightarrow> 'a list \<Rightarrow> 'a list" where
  "remove_nth i xs = take i xs @ drop (Suc i) xs"

text \<open>
  The second piece (lines 80 to 100) runs when \<^verbatim>\<open>getBlock\<close> completes. A failure leaves
  \<^verbatim>\<open>handleBlock\<close> and is logged by the listener, which ends the handling; otherwise the
  loop over the block runs, the GET of \<^verbatim>\<open>fetchInternalTxs\<close> is sent, and the handling
  suspends again.
\<close>

definition on_block_reply :: "env \<Rightarrow> nat \<Rightarrow> task \<Rightarrow> world \<Rightarrow> world" where
  "on_block_reply en i t w =
     (case http_getBlock en (t_call t) (t_block t) of
        Inl e \<Rightarrow> console_error T_block_error [E e] (w\<lparr>pending := remove_nth i (pending w)\<rparr>)
      | Inr blk \<Rightarrow>
          (let w2 = (case blk of
                       None \<Rightarrow> w
                     | Some b \<Rightarrow>
                         (case transactions b of
                            None \<Rightarrow> w
                          | Some txs \<Rightarrow> normal_loop en (t_block t) txs w));
               params = fetch_request en txlistinternal (WATCH en) (t_block t) (t_block t) 1000
           in w2\<lparr>requests := requests w2 @ [params],
                 pending := (pending w2)[i := t\<lparr>t_stage := AwaitingInternal,
                                              t_call := length (requests w2)\<rparr>]\<rparr>))"

text \<open>What \<^verbatim>\<open>fetchInternalTxs\<close> makes of the answer to its GET (lines 44 to 48).\<close>

definition internal_reply :: "env \<Rightarrow> nat \<Rightarrow> request \<Rightarrow> exn + etx list" where
  "internal_reply en k params =
     (case axios_get en k params of
        Inl e \<Rightarrow> Inl e
      | Inr data \<Rightarrow>
          if status data \<noteq> ''1'' \<and> message data \<noteq> ''No transactions found''
          then Inl (EtherscanInternalError (message data))
          else Inr (result_or_empty data))"

text \<open>
  The third piece (lines 100 to 114) runs when that GET completes: the loop over the
  internal transactions, or the \<^verbatim>\<open>catch\<close>; then the handling is over.
\<close>

definition on_internal_reply :: "env \<Rightarrow> nat \<Rightarrow> task \<Rightarrow> world \<Rightarrow> world" where
  "on_internal_reply en i t w =
     (let w1 = w\<lparr>pending := remove_nth i (pending w)\<rparr>
      in case internal_reply en (t_call t)
                (fetch_request en txlistinternal (WATCH en) (t_block t) (t_block t) 1000) of
           Inl e \<Rightarrow> console_error T_internal_fetch_error [E e] w1
         | Inr ints \<Rightarrow>
             (case forEach (print_new_internal en) ints w1 of
                (w3, Inl e) \<Rightarrow> console_error T_internal_fetch_error [E e] w3
              | (w3, Inr u) \<Rightarrow> w3))"

text \<open>Resuming the \<open>i\<close>-th handling in flight; nothing happens when there is none.\<close>

definition resume :: "env \<Rightarrow> nat \<Rightarrow> world \<Rightarrow> world" where
  "resume en i w =
     (if i < length (pending w)
      then (let t = pending w ! i
            in case t_stage t of
                 AwaitingBlock \<Rightarrow> on_block_reply en i t w
               | AwaitingInternal \<Rightarrow> on_internal_reply en i t w)
      else w)"

text \<open>
  The runtime ends a process that has nothing left to wait for: with the websocket closed
  and no handling in flight the script exits by itself, with code 0.
\<close>

definition end_if_idle :: "world \<Rightarrow> world" where
  "end_if_idle w = (if ws_closed w \<and> pending w = [] then w\<lparr>exit_code := Some 0\<rparr> else w)"

text \<open>
  One turn of the event loop. A new block number starts one handling for every registered
  block listener; a closed websocket delivers no block numbers. A process that has exited
  does nothing.
\<close>

definition deliver :: "env \<Rightarrow> world \<Rightarrow> event \<Rightarrow> world" where
  "deliver en w ev =
     (if exit_code w = None
      then end_if_idle
             (case ev of
                NewBlock bn \<Rightarrow>
                  (if ws_closed w then w else (handleBlock_start bn ^^ block_listeners w) w)
              | Reply i \<Rightarrow> resume en i w
              | Closed \<Rightarrow>
                  (if ws_closed w then w
                   else (close_listener ^^ close_listeners w) (w\<lparr>ws_closed := True\<rparr>)))
      else w)"

definition world0 :: world where
  "world0 = \<lparr>console = [], requests = [], getBlock_calls = [], ws_connects = 0,
             block_listeners = 0, close_listeners = 0, exit_code = None,
             pending = [], ws_closed = False\<rparr>"

text \<open>The guard at the top of the module, negated: all four values are present.\<close>

definition env_complete :: "env \<Rightarrow> bool" where
  "env_complete en =
     (truthy (WS_RPC_SEPOLIA en) \<and> truthy (HTTP_RPC_SEPOLIA en) \<and> WATCH en \<noteq> []
      \<and> truthy (ETHERSCAN_API_KEY en))"

text \<open>
  The module from top to bottom, then the turns of the event loop once the listeners are
  registered.
\<close>

definition main :: "env \<Rightarrow> event list \<Rightarrow> world" where
  "main en evs =
     (if env_complete en
      then
        (let w0 = world0\<lparr>ws_connects := 1\<rparr>
         in case printHistory en (WATCH en) w0 of
              (w1, Inl e) \<Rightarrow> (console_error T_fatal [E e] w1)\<lparr>exit_code := Some 1\<rparr>
            | (w1, Inr u) \<Rightarrow>
                (case liveMonitor en (WATCH en) w1 of
                   (w2, Inl e) \<Rightarrow> (console_error T_fatal [E e] w2)\<lparr>exit_code := Some 1\<rparr>
                 | (w2, Inr u') \<Rightarrow> foldl (deliver en) w2 evs))
      else (console_error T_missing_env [] world0)\<lparr>exit_code := Some 1\<rparr>)"

section \<open>Observations on a run\<close>

text \<open>
  The normal transactions announced on a console: the arguments of its \<open>Hash\<close> lines,
  which only the new-normal-transaction block of \<^verbatim>\<open>handleBlock\<close> prints.
\<close>

definition hash_of_line :: "line \<Rightarrow> arg option" where
  "hash_of_line l =
     (case l of
        Log t as \<Rightarrow> (if t = T_hash then (case as of [a] \<Rightarrow> Some a | _ \<Rightarrow> None) else None)
      | Err t as \<Rightarrow> None)"

definition emitted_normal :: "line list \<Rightarrow> arg list" where
  "emitted_normal ls = List.map_filter hash_of_line ls"

text \<open>The heading lines of the history entries, normal and internal.\<close>

definition is_hist_header :: "line \<Rightarrow> bool" where
  "is_hist_header l =
     (case l of
        Log t as \<Rightarrow> t = T_hist_normal \<or> t = T_hist_internal
      | Err t as \<Rightarrow> False)"

definition hist_headers :: "line list \<Rightarrow> line list" where
  "hist_headers ls = filter is_hist_header ls"

text \<open>
  The block numbers the provider delivers, in the order delivered: those that come before
  the websocket closes.
\<close>

fun delivered_blocks :: "event list \<Rightarrow> nat list" where
  "delivered_blocks [] = []"
| "delivered_blocks (NewBlock bn # evs) = bn # delivered_blocks evs"
| "delivered_blocks (Reply i # evs) = delivered_blocks evs"
| "delivered_blocks (Closed # evs) = []"

text \<open>
  The turns of the event loop when every handling ends before the next block number
  arrives, and no other is in flight: the number, then the two completions.
\<close>

definition one_by_one :: "nat list \<Rightarrow> event list" where
  "one_by_one bns = concat (map (\<lambda>bn. [NewBlock bn, Reply 0, Reply 0]) bns)"

text \<open>
  Two worlds agree on everything but the console and the two call logs: connections,
  listeners, exit code, handlings in flight and the state of the websocket are the same.
\<close>

definition same_process :: "world \<Rightarrow> world \<Rightarrow> bool" where
  "same_process w w' =
     (ws_connects w' = ws_connects w \<and> block_listeners w' = block_listeners w
      \<and> close_listeners w' = close_listeners w \<and> exit_code w' = exit_code w
      \<and> pending w' = pending w \<and> ws_closed w' = ws_closed w)"

text \<open>Connections and listeners are the same.\<close>

definition same_wiring :: "world \<Rightarrow> world \<Rightarrow> bool" where
  "same_wiring w w' =
     (ws_connects w' = ws_connects w \<and> block_listeners w' = block_listeners w
      \<and> close_listeners w' = close_listeners w)"

text \<open>Only the console differs: the two call logs and the process are as before.\<close>

definition console_only :: "world \<Rightarrow> world \<Rightarrow> bool" where
  "console_only w w' =
     (requests w' = requests w \<and> getBlock_calls w' = getBlock_calls w \<and> same_process w w')"

text \<open>The transaction list the loop of \<^verbatim>\<open>handleBlock\<close> runs over: empty for a missing block
  and for a block without a list.\<close>

definition block_txs :: "block option \<Rightarrow> entry list" where
  "block_txs blk =
     (case blk of
        None \<Rightarrow> []
      | Some b \<Rightarrow> (case transactions b of None \<Rightarrow> [] | Some txs \<Rightarrow> txs))"

text \<open>The lines that loop prints for a transaction list.\<close>

definition normal_lines :: "env \<Rightarrow> nat \<Rightarrow> entry list \<Rightarrow> line list" where
  "normal_lines en bn txs = concat (map (print_new_normal en bn) (filter (involves_WATCH en) txs))"

text \<open>
  The matching rule in the words of the specification: a field that is present and equal
  to the address when both are compared without regard to case. Two characters are the
  same letter when they are equal or are the capital and the small form of one letter.
\<close>

definition same_letter :: "char \<Rightarrow> char \<Rightarrow> bool" where
  "same_letter x y =
     (x = y
      \<or> (x, y) \<in> set (zip ''ABCDEFGHIJKLMNOPQRSTUVWXYZ'' ''abcdefghijklmnopqrstuvwxyz'')
      \<or> (y, x) \<in> set (zip ''ABCDEFGHIJKLMNOPQRSTUVWXYZ'' ''abcdefghijklmnopqrstuvwxyz''))"

definition ci_equal :: "string \<Rightarrow> string \<Rightarrow> bool" where
  "ci_equal a b = list_all2 same_letter a b"

definition touches_address :: "string \<Rightarrow> tx \<Rightarrow> bool" where
  "touches_address a t =
     ((case tx_from t of None \<Rightarrow> False | Some f \<Rightarrow> ci_equal f a)
      \<or> (case tx_to t of None \<Rightarrow> False | Some d \<Rightarrow> ci_equal d a))"

text \<open>
  The lines that \<^verbatim>\<open>printHistory\<close> writes for one normal entry (lines 57 to 63) and for one
  internal entry (lines 69 to 75), written out.
\<close>

definition normal_entry_lines :: "env \<Rightarrow> etx \<Rightarrow> line list" where
  "normal_entry_lines en t =
     [Log T_hist_normal [S (e_hash t)],
      Log T_hist_block_time [N (e_blockNumber t),
                             S (case js_toISOString en (e_timeStamp t) of None \<Rightarrow> [] | Some d \<Rightarrow> d)],
      Log T_hist_from [S (e_from t)],
      Log T_hist_to [S (e_to t)],
      Log T_hist_value [S (fmtEth en (js_BigInt en (e_value t)))]]
     @ (if truthy (e_input t) \<and> or_empty (e_input t) \<noteq> ''0x''
        then [Log T_hist_input [S (take 18 (or_empty (e_input t)))]] else [])"

definition internal_entry_lines :: "env \<Rightarrow> etx \<Rightarrow> line list" where
  "internal_entry_lines en t =
     [Log T_hist_internal [S (e_hash t)],
      Log T_hist_block_time [N (e_blockNumber t),
                             S (case js_toISOString en (e_timeStamp t) of None \<Rightarrow> [] | Some d \<Rightarrow> d)],
      Log T_hist_from [S (e_from t)],
      Log T_hist_to [S (e_to t)],
      Log T_hist_value [S (fmtEth en (js_BigInt en (e_value t)))],
      Log T_hist_type [S (if truthy (e_type t) then or_empty (e_type t) else ''call'')]]"

section \<open>Example environments\<close>

definition ex_etx :: "string \<Rightarrow> nat \<Rightarrow> etx" where
  "ex_etx h bn =
     \<lparr>e_hash = h, e_blockNumber = bn, e_timeStamp = ''1700000000'',
      e_from = ''0xab'', e_to = ''0xcd'', e_value = ''5'',
      e_input = Some ''0x'', e_type = None, e_traceId = None\<rparr>"

definition ex_ok :: "etx list \<Rightarrow> response" where
  "ex_ok r = \<lparr>status = ''1'', message = ''OK'', result = Some r\<rparr>"

definition ex_none_found :: "etx list option \<Rightarrow> response" where
  "ex_none_found r = \<lparr>status = ''0'', message = ''No transactions found'', result = r\<rparr>"

definition ex_rate_limited :: response where
  "ex_rate_limited = \<lparr>status = ''0'', message = ''NOTOK'', result = None\<rparr>"

text \<open>
  An environment with all four variables set, watching \<^verbatim>\<open>0xAB\<close>, whose node and indexer
  are given; the built-ins accept every string the examples use, and the provider object
  has no \<^verbatim>\<open>_websocket\<close> field.
\<close>

definition ex_env :: "(nat \<Rightarrow> request \<Rightarrow> exn + response) \<Rightarrow> (nat \<Rightarrow> nat \<Rightarrow> exn + block option) \<Rightarrow> env" where
  "ex_env ax gb =
     \<lparr>WS_RPC_SEPOLIA = Some ''wss://node'', HTTP_RPC_SEPOLIA = Some ''https://node'',
      ADDRESS = Some ''0xAB'', ETHERSCAN_API_KEY = Some ''key'',
      axios_get = ax, http_getBlock = gb,
      js_BigInt = (\<lambda>s. if s = ''5'' then Some 5 else None),
      js_toISOString = (\<lambda>s. if s = ''1700000000'' then Some ''2023-11-14T22:13:20.000Z'' else None),
      formatEther = (\<lambda>v. if v = 5 then Some ''0.000000000000000005'' else Some ''0.0''),
      has_websocket = False\<rparr>"

text \<open>The same environment with a provider object that has a \<^verbatim>\<open>_websocket\<close> field.\<close>

definition ex_env_socket :: "(nat \<Rightarrow> request \<Rightarrow> exn + response) \<Rightarrow> (nat \<Rightarrow> nat \<Rightarrow> exn + block option) \<Rightarrow> env" where
  "ex_env_socket ax gb = (ex_env ax gb)\<lparr>has_websocket := True\<rparr>"

definition ex_tx :: "string \<Rightarrow> string option \<Rightarrow> string option \<Rightarrow> tx" where
  "ex_tx h f d = \<lparr>tx_hash = h, tx_from = f, tx_to = d, tx_value = Some 5\<rparr>"

text \<open>
  Four transactions: the first from the watched address and the third to it, each in a
  different spelling; the other two between unrelated parties, one a contract creation.
\<close>

definition ex_mixed :: "tx list" where
  "ex_mixed = [ex_tx ''0x01'' (Some ''0xAb'') (Some ''0xcd''),
               ex_tx ''0x02'' (Some ''0xcd'') (Some ''0xef''),
               ex_tx ''0x03'' None (Some ''0xaB''),
               ex_tx ''0x04'' (Some ''0xcd'') None]"

text \<open>A node whose every block holds the given transactions.\<close>

definition ex_node :: "tx list \<Rightarrow> nat \<Rightarrow> nat \<Rightarrow> exn + block option" where
  "ex_node txs k bn = Inr (Some (ethers_block txs))"

text \<open>A node whose block \<open>b\<close> holds the given transactions and whose other blocks are empty.\<close>

definition ex_node_at :: "nat \<Rightarrow> tx list \<Rightarrow> nat \<Rightarrow> nat \<Rightarrow> exn + block option" where
  "ex_node_at b txs k bn = Inr (Some (ethers_block (if bn = b then txs else [])))"

text \<open>
  An indexer that holds the given normal and internal history and answers every query
  with the entries of the block range asked for.
\<close>

definition ex_indexer :: "etx list \<Rightarrow> etx list \<Rightarrow> nat \<Rightarrow> request \<Rightarrow> exn + response" where
  "ex_indexer normal internal k rq =
     Inr (ex_ok (filter (\<lambda>t. rq_startblock rq \<le> e_blockNumber t \<and> e_blockNumber t \<le> rq_endblock rq)
                   (if rq_action rq = txlist then normal else internal)))"

text \<open>An indexer that serves the stored history page by page, as asked.\<close>

definition ex_paged :: "etx list \<Rightarrow> nat \<Rightarrow> request \<Rightarrow> exn + response" where
  "ex_paged stored k rq =
     Inr (ex_ok (take (rq_offset rq) (drop ((rq_page rq - 1) * rq_offset rq) stored)))"

text \<open>A batch of history entries given by their hashes and block numbers.\<close>

definition ex_batch :: "(string \<times> nat) list \<Rightarrow> etx list" where
  "ex_batch hbs = map (\<lambda>(h, b). ex_etx h b) hbs"

text \<open>Six normal transactions in six successive blocks.\<close>

definition ex_six :: "(string \<times> nat) list" where
  "ex_six = [(''n1'', 11), (''n2'', 12), (''n3'', 13), (''n4'', 14), (''n5'', 15), (''n6'', 16)]"

text \<open>An indexer that holds the given normal and internal history and always answers.\<close>

definition ex_history :: "etx list \<Rightarrow> etx list \<Rightarrow> nat \<Rightarrow> request \<Rightarrow> exn + response" where
  "ex_history normal internal k rq =
     Inr (ex_ok (if rq_action rq = txlist then normal else internal))"

text \<open>An indexer that answers the two history queries and then stops answering.\<close>

definition ex_then_down :: "etx list \<Rightarrow> nat \<Rightarrow> request \<Rightarrow> exn + response" where
  "ex_then_down stored k rq =
     (if k < 2
      then Inr (if rq_action rq = txlist then ex_ok stored else ex_none_found (Some []))
      else Inl (NetworkError ''timeout''))"

text \<open>An indexer that cannot be reached.\<close>

definition ex_down :: "nat \<Rightarrow> request \<Rightarrow> exn + response" where
  "ex_down k rq = Inl (NetworkError ''timeout'')"

text \<open>An indexer that is rate-limited on its first two calls and answers from the third.\<close>

definition ex_limited_twice :: "nat \<Rightarrow> request \<Rightarrow> exn + response" where
  "ex_limited_twice k rq = (if k < 2 then Inr ex_rate_limited else Inr (ex_ok []))"

section \<open>What each function leaves unchanged\<close>

lemma same_process_refl: "same_process w w"
  by (simp add: same_process_def)

lemma same_process_trans: "same_process w w' \<Longrightarrow> same_process w' w'' \<Longrightarrow> same_process w w''"
  by (simp add: same_process_def)

lemma console_only_trans: "console_only w w' \<Longrightarrow> console_only w' w'' \<Longrightarrow> console_only w w''"
  by (simp add: console_only_def same_process_def)

lemma fetchNormalTxs_eq:
  "fetchNormalTxs en a sb eb off w =
     (w\<lparr>requests := requests w @ [fetch_request en txlist a sb eb off]\<rparr>,
      case axios_get en (length (requests w)) (fetch_request en txlist a sb eb off) of
        Inl e \<Rightarrow> Inl e
      | Inr data \<Rightarrow>
          if status data \<noteq> ''1'' \<and> message data \<noteq> ''No transactions found''
          then Inl (EtherscanNormalError (message data))
          else Inr (result_or_empty data))"
  by (simp add: fetchNormalTxs_def Let_def split: sum.splits)

lemma fetchInternalTxs_eq:
  "fetchInternalTxs en a sb eb off w =
     (w\<lparr>requests := requests w @ [fetch_request en txlistinternal a sb eb off]\<rparr>,
      case axios_get en (length (requests w)) (fetch_request en txlistinternal a sb eb off) of
        Inl e \<Rightarrow> Inl e
      | Inr data \<Rightarrow>
          if status data \<noteq> ''1'' \<and> message data \<noteq> ''No transactions found''
          then Inl (EtherscanInternalError (message data))
          else Inr (result_or_empty data))"
  by (simp add: fetchInternalTxs_def Let_def split: sum.splits)

lemma forEach_console_only:
  assumes "\<And>x w. console_only w (fst (f x w))"
  shows "console_only w (fst (forEach f xs w))"
proof (induction xs arbitrary: w)
  case Nil
  show ?case by (simp add: console_only_def same_process_def)
next
  case (Cons x xs)
  have step: "console_only w (fst (f x w))" by (rule assms)
  show ?case
  proof (cases "f x w")
    case (Pair w' r)
    with step have w': "console_only w w'" by simp
    show ?thesis
    proof (cases r)
      case (Inl e)
      with Pair w' show ?thesis by simp
    next
      case (Inr u)
      have "console_only w' (fst (forEach f xs w'))" by (rule Cons.IH)
      with w' have "console_only w (fst (forEach f xs w'))" by (rule console_only_trans)
      with Pair Inr show ?thesis by simp
    qed
  qed
qed

lemma print_hist_normal_console_only: "console_only w (fst (print_hist_normal en t w))"
  by (simp add: print_hist_normal_def console_log_def console_only_def same_process_def Let_def
      split: option.splits)

lemma print_hist_internal_console_only: "console_only w (fst (print_hist_internal en t w))"
  by (simp add: print_hist_internal_def console_log_def console_only_def same_process_def Let_def
      split: option.splits)

lemma print_new_internal_console_only: "console_only w (fst (print_new_internal en t w))"
  by (simp add: print_new_internal_def console_log_def console_only_def same_process_def Let_def
      split: option.splits)

lemma forEach_hist_normal:
  "forEach (print_hist_normal en) ts w = (w', r) \<Longrightarrow> console_only w w'"
  using forEach_console_only [of "print_hist_normal en" w ts] print_hist_normal_console_only
  by simp

lemma forEach_hist_internal:
  "forEach (print_hist_internal en) ts w = (w', r) \<Longrightarrow> console_only w w'"
  using forEach_console_only [of "print_hist_internal en" w ts] print_hist_internal_console_only
  by simp

lemma forEach_new_internal:
  "forEach (print_new_internal en) ts w = (w', r) \<Longrightarrow> console_only w w'"
  using forEach_console_only [of "print_new_internal en" w ts] print_new_internal_console_only
  by simp

lemma normal_loop_eq:
  "normal_loop en bn txs w =
     w\<lparr>console := console w @ concat (map (print_new_normal en bn) (filter (involves_WATCH en) txs))\<rparr>"
  by (induction txs arbitrary: w) simp_all

lemma printHistory_frame:
  assumes "printHistory en a w = (w', r)"
  shows "getBlock_calls w' = getBlock_calls w \<and> same_process w w'"
  using assms
  by (auto simp: printHistory_def Let_def fetchNormalTxs_eq fetchInternalTxs_eq
        console_log_def console_only_def same_process_def
      split: prod.splits sum.splits if_splits
      dest!: forEach_hist_normal forEach_hist_internal)

lemma emitted_normal_append: "emitted_normal (xs @ ys) = emitted_normal xs @ emitted_normal ys"
  by (simp add: emitted_normal_def List.map_filter_def)

lemma emitted_normal_Err: "emitted_normal (xs @ [Err t as]) = emitted_normal xs"
  by (simp add: emitted_normal_def List.map_filter_def hash_of_line_def)

lemma emitted_normal_lines:
  "emitted_normal (normal_lines en bn txs) =
     map (\<lambda>t. opt_arg (entry_hash t)) (filter (involves_WATCH en) txs)"
  by (induction txs)
     (simp_all add: normal_lines_def emitted_normal_def List.map_filter_def hash_of_line_def
        print_new_normal_def)

lemma print_new_internal_emitted:
  "emitted_normal (console (fst (print_new_internal en t w))) = emitted_normal (console w)"
  by (simp add: print_new_internal_def console_log_def Let_def emitted_normal_def
        List.map_filter_def hash_of_line_def
      split: option.splits)

lemma forEach_new_internal_emitted:
  "emitted_normal (console (fst (forEach (print_new_internal en) ts w))) = emitted_normal (console w)"
proof (induction ts arbitrary: w)
  case Nil
  show ?case by simp
next
  case (Cons t ts)
  show ?case
  proof (cases "print_new_internal en t w")
    case (Pair w' r)
    then have w': "emitted_normal (console w') = emitted_normal (console w)"
      using print_new_internal_emitted [of en t w] by simp
    show ?thesis
    proof (cases r)
      case (Inl e)
      with Pair w' show ?thesis by simp
    next
      case (Inr u)
      with Pair w' Cons.IH [of w'] show ?thesis by simp
    qed
  qed
qed

lemma internal_try_frame:
  assumes "internal_try en bn w = (w', r)"
  shows "requests w' = requests w @ [fetch_request en txlistinternal (WATCH en) bn bn 1000]
         \<and> getBlock_calls w' = getBlock_calls w \<and> same_process w w'"
  using assms
  by (auto simp: internal_try_def fetchInternalTxs_eq console_only_def same_process_def
      split: sum.splits if_splits dest!: forEach_new_internal)

lemma internal_try_emitted:
  "emitted_normal (console (fst (internal_try en bn w))) = emitted_normal (console w)"
  by (simp add: internal_try_def fetchInternalTxs_eq forEach_new_internal_emitted
      split: sum.splits)

lemma handleBlock_eq:
  "handleBlock en bn w =
     (case http_getBlock en (length (getBlock_calls w)) bn of
        Inl e \<Rightarrow> (w\<lparr>getBlock_calls := getBlock_calls w @ [bn]\<rparr>, Inl e)
      | Inr blk \<Rightarrow>
          (case internal_try en bn
                  (w\<lparr>getBlock_calls := getBlock_calls w @ [bn],
                     console := console w @ normal_lines en bn (block_txs blk)\<rparr>) of
             (w3, Inl e) \<Rightarrow> (console_error T_internal_fetch_error [E e] w3, Inr ())
           | (w3, Inr u) \<Rightarrow> (w3, Inr ())))"
  by (simp add: handleBlock_def Let_def normal_loop_eq block_txs_def normal_lines_def
      split: sum.splits option.splits)

lemma handleBlock_frame:
  assumes "handleBlock en bn w = (w', r)"
  shows "getBlock_calls w' = getBlock_calls w @ [bn] \<and> same_process w w'"
  using assms
  by (auto simp: handleBlock_eq console_error_def same_process_def
      split: sum.splits prod.splits dest!: internal_try_frame)

lemma handleBlock_returns:
  assumes "http_getBlock en (length (getBlock_calls w)) bn = Inr blk"
  shows "snd (handleBlock en bn w) = Inr ()"
  using assms by (simp add: handleBlock_eq split: sum.splits prod.splits)

lemma handleBlock_requests:
  assumes "http_getBlock en (length (getBlock_calls w)) bn = Inr blk"
  shows "requests (fst (handleBlock en bn w)) =
           requests w @ [fetch_request en txlistinternal (WATCH en) bn bn 1000]"
  using assms
  by (auto simp: handleBlock_eq console_error_def split: sum.splits prod.splits
      dest!: internal_try_frame)

lemma handleBlock_emitted:
  assumes "http_getBlock en (length (getBlock_calls w)) bn = Inr blk"
  shows "emitted_normal (console (fst (handleBlock en bn w))) =
           emitted_normal (console w)
           @ map (\<lambda>t. opt_arg (entry_hash t)) (filter (involves_WATCH en) (block_txs blk))"
proof -
  let ?w2 = "w\<lparr>getBlock_calls := getBlock_calls w @ [bn],
                  console := console w @ normal_lines en bn (block_txs blk)\<rparr>"
  have "emitted_normal (console (fst (handleBlock en bn w)))
          = emitted_normal (console (fst (internal_try en bn ?w2)))"
    using assms
    by (simp add: handleBlock_eq console_error_def emitted_normal_Err
        split: sum.splits prod.splits)
  also have "\<dots> = emitted_normal (console ?w2)"
    by (rule internal_try_emitted)
  finally show ?thesis
    by (simp add: emitted_normal_append emitted_normal_lines)
qed

lemma block_listener_frame:
  "getBlock_calls (block_listener en bn w) = getBlock_calls w @ [bn]
   \<and> same_process w (block_listener en bn w)"
  by (auto simp: block_listener_def console_error_def same_process_def
      split: prod.splits sum.splits dest!: handleBlock_frame)

lemma close_listener_frame:
  "getBlock_calls (close_listener w) = getBlock_calls w \<and> requests (close_listener w) = requests w
   \<and> same_process w (close_listener w)"
  by (simp add: close_listener_def console_log_def same_process_def)

section \<open>The pieces of a handling\<close>

lemma remove_nth_last: "remove_nth (length xs) (xs @ [x]) = xs"
  by (simp add: remove_nth_def)

lemma forEach_new_internal_fst:
  "console_only w (fst (forEach (print_new_internal en) ts w))"
  using forEach_console_only [of "print_new_internal en" w ts] print_new_internal_console_only
  by simp

text \<open>
  Started and resumed twice with nothing else in between, a handling does what the block
  listener does when nothing interrupts it.
\<close>

lemma resume_twice:
  "resume en (length (pending w)) (resume en (length (pending w)) (handleBlock_start bn w))
     = block_listener en bn w"
proof (cases "http_getBlock en (length (getBlock_calls w)) bn")
  case (Inl e)
  then show ?thesis
    by (simp add: resume_def handleBlock_start_def on_block_reply_def remove_nth_last
          block_listener_def handleBlock_eq console_error_def)
next
  case (Inr blk)
  let ?rq = "fetch_request en txlistinternal (WATCH en) bn bn 1000"
  let ?w2 = "w\<lparr>getBlock_calls := getBlock_calls w @ [bn],
                console := console w @ normal_lines en bn (block_txs blk)\<rparr>"
  let ?t = "\<lparr>t_block = bn, t_stage = AwaitingInternal, t_call = length (requests w)\<rparr>"
  have first: "resume en (length (pending w)) (handleBlock_start bn w)
                 = ?w2\<lparr>requests := requests w @ [?rq], pending := pending w @ [?t]\<rparr>"
    using Inr
    by (simp add: resume_def handleBlock_start_def on_block_reply_def normal_loop_eq
          normal_lines_def block_txs_def split: option.splits)
  have second: "resume en (length (pending w))
                  (?w2\<lparr>requests := requests w @ [?rq], pending := pending w @ [?t]\<rparr>)
                = block_listener en bn w"
    using Inr
    by (simp add: resume_def on_internal_reply_def remove_nth_last internal_reply_def
          block_listener_def handleBlock_eq internal_try_def fetchInternalTxs_eq
        split: sum.splits prod.splits)
  from first second show ?thesis by simp
qed

lemma handleBlock_start_frame:
  "getBlock_calls (handleBlock_start bn w) = getBlock_calls w @ [bn]
   \<and> ws_connects (handleBlock_start bn w) = ws_connects w
   \<and> block_listeners (handleBlock_start bn w) = block_listeners w
   \<and> close_listeners (handleBlock_start bn w) = close_listeners w
   \<and> exit_code (handleBlock_start bn w) = exit_code w
   \<and> ws_closed (handleBlock_start bn w) = ws_closed w
   \<and> requests (handleBlock_start bn w) = requests w
   \<and> console (handleBlock_start bn w) = console w"
  by (simp add: handleBlock_start_def)

lemma on_block_reply_frame:
  "getBlock_calls (on_block_reply en i t w) = getBlock_calls w
   \<and> ws_connects (on_block_reply en i t w) = ws_connects w
   \<and> block_listeners (on_block_reply en i t w) = block_listeners w
   \<and> close_listeners (on_block_reply en i t w) = close_listeners w
   \<and> exit_code (on_block_reply en i t w) = exit_code w
   \<and> ws_closed (on_block_reply en i t w) = ws_closed w"
  by (simp add: on_block_reply_def normal_loop_eq console_error_def Let_def
      split: sum.splits option.splits)

lemma on_internal_reply_frame:
  "getBlock_calls (on_internal_reply en i t w) = getBlock_calls w
   \<and> ws_connects (on_internal_reply en i t w) = ws_connects w
   \<and> block_listeners (on_internal_reply en i t w) = block_listeners w
   \<and> close_listeners (on_internal_reply en i t w) = close_listeners w
   \<and> exit_code (on_internal_reply en i t w) = exit_code w
   \<and> ws_closed (on_internal_reply en i t w) = ws_closed w"
  by (auto simp: on_internal_reply_def console_error_def Let_def
        console_only_def same_process_def
      split: sum.splits prod.splits dest!: forEach_new_internal)

lemma resume_frame:
  "getBlock_calls (resume en i w) = getBlock_calls w
   \<and> ws_connects (resume en i w) = ws_connects w
   \<and> block_listeners (resume en i w) = block_listeners w
   \<and> close_listeners (resume en i w) = close_listeners w
   \<and> exit_code (resume en i w) = exit_code w
   \<and> ws_closed (resume en i w) = ws_closed w"
  by (simp add: resume_def on_block_reply_frame on_internal_reply_frame Let_def
      split: stage.splits)

lemma end_if_idle_frame:
  "getBlock_calls (end_if_idle w) = getBlock_calls w
   \<and> ws_connects (end_if_idle w) = ws_connects w
   \<and> block_listeners (end_if_idle w) = block_listeners w
   \<and> close_listeners (end_if_idle w) = close_listeners w
   \<and> ws_closed (end_if_idle w) = ws_closed w
   \<and> requests (end_if_idle w) = requests w
   \<and> console (end_if_idle w) = console w"
  by (simp add: end_if_idle_def)

lemma end_if_idle_open: "\<not> ws_closed w \<Longrightarrow> end_if_idle w = w"
  by (simp add: end_if_idle_def)

lemma same_wiring_refl: "same_wiring w w"
  by (simp add: same_wiring_def)

lemma same_wiring_trans: "same_wiring w w' \<Longrightarrow> same_wiring w' w'' \<Longrightarrow> same_wiring w w''"
  by (simp add: same_wiring_def)

lemma funpow_start_frame:
  "ws_connects ((handleBlock_start bn ^^ n) w) = ws_connects w
   \<and> block_listeners ((handleBlock_start bn ^^ n) w) = block_listeners w
   \<and> close_listeners ((handleBlock_start bn ^^ n) w) = close_listeners w
   \<and> exit_code ((handleBlock_start bn ^^ n) w) = exit_code w
   \<and> ws_closed ((handleBlock_start bn ^^ n) w) = ws_closed w
   \<and> getBlock_calls ((handleBlock_start bn ^^ n) w) = getBlock_calls w @ replicate n bn"
proof (induction n)
  case 0
  show ?case by simp
next
  case (Suc n)
  then show ?case
    by (simp add: handleBlock_start_frame replicate_append_same)
qed

lemma close_listener_funpow:
  "(close_listener ^^ n) w = w\<lparr>console := console w @ replicate n (Log T_ws_closed [])\<rparr>"
proof (induction n)
  case 0
  show ?case by simp
next
  case (Suc n)
  then show ?case
    by (simp add: close_listener_def console_log_def replicate_append_same)
qed

lemma deliver_wiring: "same_wiring w (deliver en w ev)"
proof (cases "exit_code w")
  case (Some c)
  then show ?thesis by (simp add: deliver_def same_wiring_refl)
next
  case None
  show ?thesis
  proof (cases ev)
    case (NewBlock bn)
    with None show ?thesis
      by (simp add: deliver_def same_wiring_def end_if_idle_frame funpow_start_frame)
  next
    case (Reply i)
    with None show ?thesis
      by (simp add: deliver_def same_wiring_def end_if_idle_frame resume_frame)
  next
    case Closed
    with None show ?thesis
      by (simp add: deliver_def same_wiring_def end_if_idle_frame close_listener_funpow)
  qed
qed

lemma foldl_deliver_wiring: "same_wiring w (foldl (deliver en) w evs)"
proof (induction evs arbitrary: w)
  case Nil
  show ?case by (simp add: same_wiring_refl)
next
  case (Cons ev evs)
  have "same_wiring w (deliver en w ev)" by (rule deliver_wiring)
  moreover have "same_wiring (deliver en w ev) (foldl (deliver en) (deliver en w ev) evs)"
    by (rule Cons.IH)
  ultimately show ?case by (simp add: same_wiring_trans)
qed

text \<open>Once the websocket has closed or the process has exited, no block is asked for.\<close>

lemma end_if_idle_closed:
  "ws_closed w \<Longrightarrow> ws_closed (end_if_idle w)"
  by (simp add: end_if_idle_def)

lemma deliver_after_close:
  assumes "ws_closed w \<or> exit_code w \<noteq> None"
  shows "getBlock_calls (deliver en w ev) = getBlock_calls w
         \<and> (ws_closed (deliver en w ev) \<or> exit_code (deliver en w ev) \<noteq> None)"
proof (cases "exit_code w")
  case (Some c)
  then show ?thesis by (simp add: deliver_def)
next
  case None
  with assms have closed: "ws_closed w" by simp
  show ?thesis
  proof (cases ev)
    case (NewBlock bn)
    with None closed show ?thesis
      by (simp add: deliver_def end_if_idle_frame)
  next
    case (Reply i)
    with None closed show ?thesis
      by (simp add: deliver_def end_if_idle_frame resume_frame)
  next
    case Closed
    with None closed show ?thesis
      by (simp add: deliver_def end_if_idle_frame)
  qed
qed

lemma foldl_deliver_after_close:
  assumes "ws_closed w \<or> exit_code w \<noteq> None"
  shows "getBlock_calls (foldl (deliver en) w evs) = getBlock_calls w"
  using assms
proof (induction evs arbitrary: w)
  case Nil
  show ?case by simp
next
  case (Cons ev evs)
  from deliver_after_close [OF Cons.prems, of en ev] Cons.IH [of "deliver en w ev"]
  show ?case by simp
qed

lemma deliver_open:
  assumes "block_listeners w = 1" and "\<not> ws_closed w" and "exit_code w = None"
  shows "deliver en w (NewBlock bn) = handleBlock_start bn w"
    and "deliver en w (Reply i) = resume en i w"
    and "deliver en w Closed =
           end_if_idle (w\<lparr>ws_closed := True,
                          console := console w @ replicate (close_listeners w) (Log T_ws_closed [])\<rparr>)"
proof -
  have "\<not> ws_closed (handleBlock_start bn w)"
    using assms(2) by (simp add: handleBlock_start_frame)
  then show "deliver en w (NewBlock bn) = handleBlock_start bn w"
    using assms by (simp add: deliver_def end_if_idle_open)
  have "\<not> ws_closed (resume en i w)"
    using assms(2) by (simp add: resume_frame)
  then show "deliver en w (Reply i) = resume en i w"
    using assms by (simp add: deliver_def end_if_idle_open)
  show "deliver en w Closed =
           end_if_idle (w\<lparr>ws_closed := True,
                          console := console w @ replicate (close_listeners w) (Log T_ws_closed [])\<rparr>)"
    using assms by (simp add: deliver_def close_listener_funpow)
qed

lemma foldl_deliver_calls:
  assumes "block_listeners w = 1" and "\<not> ws_closed w" and "exit_code w = None"
  shows "getBlock_calls (foldl (deliver en) w evs) = getBlock_calls w @ delivered_blocks evs"
  using assms
proof (induction evs arbitrary: w)
  case Nil
  show ?case by simp
next
  case (Cons ev evs)
  note d = deliver_open [OF Cons.prems]
  show ?case
  proof (cases ev)
    case (NewBlock bn)
    let ?w = "handleBlock_start bn w"
    from Cons.prems
    have "block_listeners ?w = 1" "\<not> ws_closed ?w" "exit_code ?w = None"
      and c: "getBlock_calls ?w = getBlock_calls w @ [bn]"
      by (simp_all add: handleBlock_start_frame)
    then have "getBlock_calls (foldl (deliver en) ?w evs) = getBlock_calls ?w @ delivered_blocks evs"
      by (intro Cons.IH)
    with NewBlock d(1) [of en bn] c show ?thesis by simp
  next
    case (Reply i)
    let ?w = "resume en i w"
    from Cons.prems
    have "block_listeners ?w = 1" "\<not> ws_closed ?w" "exit_code ?w = None"
      and c: "getBlock_calls ?w = getBlock_calls w"
      by (simp_all add: resume_frame)
    then have "getBlock_calls (foldl (deliver en) ?w evs) = getBlock_calls ?w @ delivered_blocks evs"
      by (intro Cons.IH)
    with Reply d(2) [of en i] c show ?thesis by simp
  next
    case Closed
    let ?w = "deliver en w Closed"
    have "ws_closed ?w" and c: "getBlock_calls ?w = getBlock_calls w"
      by (simp_all add: d(3) end_if_idle_frame)
    then have "getBlock_calls (foldl (deliver en) ?w evs) = getBlock_calls ?w"
      by (intro foldl_deliver_after_close) simp
    with Closed c show ?thesis by simp
  qed
qed

text \<open>
  When every handling ends before the next block number arrives, the run is the block
  listener applied to the numbers one after the other.
\<close>

lemma deliver_one_handling:
  assumes "block_listeners w = 1" and "\<not> ws_closed w" and "exit_code w = None"
    and "pending w = []"
  shows "deliver en (deliver en (deliver en w (NewBlock bn)) (Reply 0)) (Reply 0)
           = block_listener en bn w"
proof -
  let ?w1 = "handleBlock_start bn w"
  let ?w2 = "resume en 0 ?w1"
  from assms
  have p1: "block_listeners ?w1 = 1" "\<not> ws_closed ?w1" "exit_code ?w1 = None"
    by (simp_all add: handleBlock_start_frame)
  from p1
  have p2: "block_listeners ?w2 = 1" "\<not> ws_closed ?w2" "exit_code ?w2 = None"
    by (simp_all add: resume_frame)
  have "deliver en (deliver en (deliver en w (NewBlock bn)) (Reply 0)) (Reply 0) = resume en 0 ?w2"
    by (simp add: deliver_open(1) [OF assms(1,2,3)] deliver_open(2) [OF p1] deliver_open(2) [OF p2])
  with resume_twice [of en w bn] assms(4) show ?thesis by simp
qed

lemma foldl_one_by_one:
  assumes "block_listeners w = 1" and "\<not> ws_closed w" and "exit_code w = None"
    and "pending w = []"
  shows "foldl (deliver en) w (one_by_one bns) = foldl (\<lambda>w bn. block_listener en bn w) w bns"
  using assms
proof (induction bns arbitrary: w)
  case Nil
  show ?case by (simp add: one_by_one_def)
next
  case (Cons bn bns)
  let ?w = "block_listener en bn w"
  from block_listener_frame [of en bn w] Cons.prems
  have "block_listeners ?w = 1" "\<not> ws_closed ?w" "exit_code ?w = None" "pending ?w = []"
    by (simp_all add: same_process_def)
  then have "foldl (deliver en) ?w (one_by_one bns) = foldl (\<lambda>w bn. block_listener en bn w) ?w bns"
    by (intro Cons.IH)
  moreover have "foldl (deliver en) w (one_by_one (bn # bns))
                   = foldl (deliver en)
                       (deliver en (deliver en (deliver en w (NewBlock bn)) (Reply 0)) (Reply 0))
                       (one_by_one bns)"
    by (simp add: one_by_one_def)
  ultimately show ?case by (simp add: deliver_one_handling [OF Cons.prems])
qed

section \<open>Facts about the examples\<close>

lemma lower_0xAB: "toLowerCase ''0xAB'' = ''0xab''"
  by (simp add: toLowerCase_def lower_char_def)

lemma lower_0xAb: "toLowerCase ''0xAb'' = ''0xab''"
  by (simp add: toLowerCase_def lower_char_def)

lemma lower_0xaB: "toLowerCase ''0xaB'' = ''0xab''"
  by (simp add: toLowerCase_def lower_char_def)

lemma lower_0xab: "toLowerCase ''0xab'' = ''0xab''"
  by (simp add: toLowerCase_def lower_char_def)

lemma lower_0xcd: "toLowerCase ''0xcd'' = ''0xcd''"
  by (simp add: toLowerCase_def lower_char_def)

lemma lower_0xef: "toLowerCase ''0xef'' = ''0xef''"
  by (simp add: toLowerCase_def lower_char_def)

lemma ex_env_WATCH: "WATCH (ex_env ax gb) = ''0xab''"
  by (simp add: ex_env_def WATCH_def or_empty_def lower_0xAB)

lemma ex_env_complete: "env_complete (ex_env ax gb)"
  by (simp add: env_complete_def ex_env_WATCH) (simp add: ex_env_def truthy_def)

lemma ex_env_fields:
  "axios_get (ex_env ax gb) = ax"
  "http_getBlock (ex_env ax gb) = gb"
  "ADDRESS (ex_env ax gb) = Some ''0xAB''"
  "ETHERSCAN_API_KEY (ex_env ax gb) = Some ''key''"
  "has_websocket (ex_env ax gb) = False"
  by (simp_all add: ex_env_def)

lemma world0_fields:
  "console world0 = []" "requests world0 = []" "getBlock_calls world0 = []"
  "ws_connects world0 = 0" "block_listeners world0 = 0" "close_listeners world0 = 0"
  "exit_code world0 = None" "pending world0 = []" "ws_closed world0 = False"
  by (simp_all add: world0_def)

lemma emitted_normal_Nil: "emitted_normal [] = []"
  by (simp add: emitted_normal_def List.map_filter_def)

section \<open>Pagination and retry\<close>

text \<open>
  C6, as the claim states it, fails: against an indexer that holds 10001 transactions and
  serves them in pages, \<^verbatim>\<open>fetchNormalTxs\<close> with the page size 10000 sends one request and
  returns the 10000 entries of page 1; the entry the indexer would serve as page 2 is never
  asked for.
\<close>

theorem fetch_first_page_only_counterexample:
  "snd (fetchNormalTxs (ex_env (ex_paged (replicate 10001 (ex_etx ''0xh1'' 7))) (ex_node []))
          ''0xab'' 0 99999999 10000 world0) = Inr (replicate 10000 (ex_etx ''0xh1'' 7))
   \<and> length (requests (fst (fetchNormalTxs
          (ex_env (ex_paged (replicate 10001 (ex_etx ''0xh1'' 7))) (ex_node []))
          ''0xab'' 0 99999999 10000 world0))) = 1
   \<and> ex_paged (replicate 10001 (ex_etx ''0xh1'' 7)) 1
        ((fetch_request (ex_env (ex_paged (replicate 10001 (ex_etx ''0xh1'' 7))) (ex_node []))
            txlist ''0xab'' 0 99999999 10000)\<lparr>rq_page := 2\<rparr>)
        = Inr (ex_ok [ex_etx ''0xh1'' 7])"
proof -
  let ?E = "ex_env (ex_paged (replicate 10001 (ex_etx ''0xh1'' 7))) (ex_node [])"
  have p1: "ex_paged (replicate 10001 (ex_etx ''0xh1'' 7)) 0
              (fetch_request ?E txlist ''0xab'' 0 99999999 10000)
            = Inr (ex_ok (replicate 10000 (ex_etx ''0xh1'' 7)))"
    by (simp add: ex_paged_def fetch_request_def)
  have p2: "ex_paged (replicate 10001 (ex_etx ''0xh1'' 7)) 1
              ((fetch_request ?E txlist ''0xab'' 0 99999999 10000)\<lparr>rq_page := 2\<rparr>)
            = Inr (ex_ok [ex_etx ''0xh1'' 7])"
    by (simp add: ex_paged_def fetch_request_def)
  have r: "snd (fetchNormalTxs ?E ''0xab'' 0 99999999 10000 world0)
             = Inr (replicate 10000 (ex_etx ''0xh1'' 7))"
    by (simp add: fetchNormalTxs_eq ex_env_fields world0_fields p1)
       (simp add: ex_ok_def result_or_empty_def)
  have n: "length (requests (fst (fetchNormalTxs ?E ''0xab'' 0 99999999 10000 world0))) = 1"
    by (simp add: fetchNormalTxs_eq world0_fields)
  from r n p2 show ?thesis by simp
qed

text \<open>
  C6, amended. \<^verbatim>\<open>fetchNormalTxs\<close> and \<^verbatim>\<open>fetchInternalTxs\<close> each send exactly one request,
  for page 1 with the page size they were given, and a batch they return is the result
  list of the answer to that one request; no further page is requested.
\<close>

theorem fetch_sends_one_request:
  "fst (fetchNormalTxs en a sb eb off w) =
     w\<lparr>requests := requests w @ [fetch_request en txlist a sb eb off]\<rparr>
   \<and> fst (fetchInternalTxs en a sb eb off w) =
     w\<lparr>requests := requests w @ [fetch_request en txlistinternal a sb eb off]\<rparr>
   \<and> rq_page (fetch_request en act a sb eb off) = 1
   \<and> rq_offset (fetch_request en act a sb eb off) = off
   \<and> (snd (fetchNormalTxs en a sb eb off w) = Inr batch \<longrightarrow>
        (\<exists>data. axios_get en (length (requests w)) (fetch_request en txlist a sb eb off) = Inr data
                \<and> batch = result_or_empty data))
   \<and> (snd (fetchInternalTxs en a sb eb off w) = Inr batch' \<longrightarrow>
        (\<exists>data. axios_get en (length (requests w)) (fetch_request en txlistinternal a sb eb off) = Inr data
                \<and> batch' = result_or_empty data))"
  by (auto simp: fetchNormalTxs_eq fetchInternalTxs_eq fetch_request_def
      split: sum.splits if_splits)

theorem fetch_sends_one_request_witness:
  "requests (fst (fetchNormalTxs (ex_env (ex_history [ex_etx ''0xh1'' 7] []) (ex_node []))
       ''0xab'' 0 99999999 10000 world0))
     = [fetch_request (ex_env (ex_history [ex_etx ''0xh1'' 7] []) (ex_node [])) txlist
          ''0xab'' 0 99999999 10000]
   \<and> snd (fetchNormalTxs (ex_env (ex_history [ex_etx ''0xh1'' 7] []) (ex_node []))
       ''0xab'' 0 99999999 10000 world0) = Inr [ex_etx ''0xh1'' 7]
   \<and> (\<exists>data. ex_history [ex_etx ''0xh1'' 7] [] 0
          (fetch_request (ex_env (ex_history [ex_etx ''0xh1'' 7] []) (ex_node [])) txlist
             ''0xab'' 0 99999999 10000) = Inr data
        \<and> [ex_etx ''0xh1'' 7] = result_or_empty data)"
proof -
  let ?E = "ex_env (ex_history [ex_etx ''0xh1'' 7] []) (ex_node [])"
  have r: "snd (fetchNormalTxs ?E ''0xab'' 0 99999999 10000 world0) = Inr [ex_etx ''0xh1'' 7]"
    by (simp add: fetchNormalTxs_eq ex_env_fields world0_fields ex_history_def ex_ok_def
          fetch_request_def result_or_empty_def)
  from fetch_sends_one_request [of ?E "''0xab''" 0 99999999 10000 world0 txlist
      "[ex_etx ''0xh1'' 7]" "[]"] r
  show ?thesis by (simp add: world0_fields ex_env_fields)
qed

text \<open>
  C7, as the claim states it, fails: against an indexer that is rate-limited on its first
  two calls and answers the third, \<^verbatim>\<open>printHistory\<close> raises the error of the first call
  after a single request.
\<close>

theorem backfill_rate_limited_counterexample:
  "ex_limited_twice 0 (fetch_request (ex_env ex_limited_twice (ex_node [])) txlist ''0xab'' 0 99999999 10000)
     = Inr ex_rate_limited
   \<and> ex_limited_twice 2 (fetch_request (ex_env ex_limited_twice (ex_node [])) txlist ''0xab'' 0 99999999 10000)
     = Inr (ex_ok [])
   \<and> snd (printHistory (ex_env ex_limited_twice (ex_node [])) ''0xab'' world0)
     = Inl (EtherscanNormalError ''NOTOK'')
   \<and> length (requests (fst (printHistory (ex_env ex_limited_twice (ex_node [])) ''0xab'' world0))) = 1"
  by (simp add: printHistory_def fetchNormalTxs_eq ex_env_fields world0_fields console_log_def
        ex_limited_twice_def ex_rate_limited_def)

lemma forEach_hist_internal_requests:
  "requests (fst (forEach (print_hist_internal en) ts w)) = requests w"
  using forEach_console_only [of "print_hist_internal en" w ts] print_hist_internal_console_only
  by (simp add: console_only_def)

lemma printHistory_requests:
  "requests (fst (printHistory en a w)) = requests w @ [fetch_request en txlist a 0 99999999 10000]
   \<or> requests (fst (printHistory en a w)) =
       requests w @ [fetch_request en txlist a 0 99999999 10000,
                     fetch_request en txlistinternal a 0 99999999 10000]"
  by (auto simp: printHistory_def Let_def fetchNormalTxs_eq fetchInternalTxs_eq
        console_log_def console_only_def forEach_hist_internal_requests
      split: prod.splits sum.splits if_splits
      dest!: forEach_hist_normal forEach_hist_internal)

text \<open>
  C7, amended. A failed history fetch is not retried: when the normal fetch fails,
  \<^verbatim>\<open>printHistory\<close> raises that error at once, having sent that one request and printed
  only its first line; in every run \<^verbatim>\<open>printHistory\<close> sends the normal query once and
  then at most the internal query once.
\<close>

theorem printHistory_fails_without_retry:
  assumes "snd (fetchNormalTxs en a 0 99999999 10000 w) = Inl e"
  shows "printHistory en a w =
           (w\<lparr>console := console w @ [Log T_fetching_normal [S a]],
              requests := requests w @ [fetch_request en txlist a 0 99999999 10000]\<rparr>, Inl e)
         \<and> (requests (fst (printHistory en' a' w')) =
               requests w' @ [fetch_request en' txlist a' 0 99999999 10000]
             \<or> requests (fst (printHistory en' a' w')) =
               requests w' @ [fetch_request en' txlist a' 0 99999999 10000,
                              fetch_request en' txlistinternal a' 0 99999999 10000])"
proof -
  have one: "printHistory en a w =
           (w\<lparr>console := console w @ [Log T_fetching_normal [S a]],
              requests := requests w @ [fetch_request en txlist a 0 99999999 10000]\<rparr>, Inl e)"
    using assms
    by (simp add: printHistory_def fetchNormalTxs_eq console_log_def split: sum.splits if_splits)
  from one printHistory_requests [of en' a' w'] show ?thesis by simp
qed

theorem printHistory_fails_without_retry_witness:
  "printHistory (ex_env ex_limited_twice (ex_node [])) ''0xab'' world0 =
     (world0\<lparr>console := [Log T_fetching_normal [S ''0xab'']],
        requests := [fetch_request (ex_env ex_limited_twice (ex_node [])) txlist ''0xab'' 0 99999999 10000]\<rparr>,
      Inl (EtherscanNormalError ''NOTOK''))"
proof -
  let ?E = "ex_env ex_limited_twice (ex_node [])"
  have f: "snd (fetchNormalTxs ?E ''0xab'' 0 99999999 10000 world0)
             = Inl (EtherscanNormalError ''NOTOK'')"
    by (simp add: fetchNormalTxs_eq ex_env_fields world0_fields ex_limited_twice_def
          ex_rate_limited_def)
  from printHistory_fails_without_retry [OF f] show ?thesis
    by (simp add: world0_fields)
qed

section \<open>The run of the whole script\<close>

lemma liveMonitor_eq:
  "liveMonitor en a w =
     (w\<lparr>console := console w @ [Log T_live_monitoring [S a]],
        block_listeners := Suc (block_listeners w),
        close_listeners := (if has_websocket en then Suc (close_listeners w) else close_listeners w)\<rparr>,
      Inr ())"
  by (simp add: liveMonitor_def Let_def console_log_def)

lemma main_failure:
  assumes "env_complete en"
    and "printHistory en (WATCH en) (world0\<lparr>ws_connects := 1\<rparr>) = (w1, Inl e)"
  shows "main en evs = (console_error T_fatal [E e] w1)\<lparr>exit_code := Some 1\<rparr>"
  using assms by (simp add: main_def)

lemma main_success:
  assumes "env_complete en"
    and "printHistory en (WATCH en) (world0\<lparr>ws_connects := 1\<rparr>) = (w1, Inr u)"
  shows "main en evs = foldl (deliver en) (fst (liveMonitor en (WATCH en) w1)) evs"
  using assms by (simp add: main_def liveMonitor_eq)

lemma ex_down_backfill:
  "printHistory (ex_env ex_down gb) (WATCH (ex_env ex_down gb)) (world0\<lparr>ws_connects := 1\<rparr>) =
     (world0\<lparr>ws_connects := 1, console := [Log T_fetching_normal [S ''0xab'']],
        requests := [fetch_request (ex_env ex_down gb) txlist ''0xab'' 0 99999999 10000]\<rparr>,
      Inl (NetworkError ''timeout''))"
  by (simp add: printHistory_def fetchNormalTxs_eq console_log_def ex_env_fields ex_down_def
        world0_fields ex_env_WATCH)

text \<open>
  C2, as the claim states it, fails: when the indexer cannot be reached, the script prints
  the error as fatal and exits with code 1; no listener is registered and the block that
  arrives afterwards is not fetched.
\<close>

theorem backfill_failure_counterexample:
  "console (main (ex_env ex_down (ex_node ex_mixed)) [NewBlock 7]) =
     [Log T_fetching_normal [S ''0xab''], Err T_fatal [E (NetworkError ''timeout'')]]
   \<and> exit_code (main (ex_env ex_down (ex_node ex_mixed)) [NewBlock 7]) = Some 1
   \<and> block_listeners (main (ex_env ex_down (ex_node ex_mixed)) [NewBlock 7]) = 0
   \<and> getBlock_calls (main (ex_env ex_down (ex_node ex_mixed)) [NewBlock 7]) = []"
  by (simp add: main_failure [OF ex_env_complete ex_down_backfill] console_error_def world0_fields)

text \<open>
  C2, amended. When \<^verbatim>\<open>printHistory\<close> raises, the script reports the error on the console
  as fatal and the process exits with code 1 without calling \<^verbatim>\<open>liveMonitor\<close>: no block
  listener is registered and no block is ever fetched, whatever the provider delivers.
\<close>

theorem main_backfill_failure_is_fatal:
  assumes "env_complete en"
    and "printHistory en (WATCH en) (world0\<lparr>ws_connects := 1\<rparr>) = (w1, Inl e)"
  shows "main en evs = (console_error T_fatal [E e] w1)\<lparr>exit_code := Some 1\<rparr>
         \<and> exit_code (main en evs) = Some 1
         \<and> block_listeners (main en evs) = 0
         \<and> getBlock_calls (main en evs) = []"
proof -
  from printHistory_frame [OF assms(2)]
  have "getBlock_calls w1 = []" "block_listeners w1 = 0"
    by (simp_all add: same_process_def world0_fields)
  with main_failure [OF assms] show ?thesis by (simp add: console_error_def)
qed

theorem main_backfill_failure_is_fatal_witness:
  "exit_code (main (ex_env ex_down (ex_node ex_mixed)) [NewBlock 7, Closed, NewBlock 8]) = Some 1
   \<and> block_listeners (main (ex_env ex_down (ex_node ex_mixed)) [NewBlock 7, Closed, NewBlock 8]) = 0
   \<and> getBlock_calls (main (ex_env ex_down (ex_node ex_mixed)) [NewBlock 7, Closed, NewBlock 8]) = []"
  using main_backfill_failure_is_fatal [OF ex_env_complete ex_down_backfill,
      of "ex_node ex_mixed" "[NewBlock 7, Closed, NewBlock 8]"]
  by (simp add: console_error_def world0_fields)

section \<open>Matching transactions of a block\<close>

lemma lower_char_letters:
  "toLowerCase ''ABCDEFGHIJKLMNOPQRSTUVWXYZ'' = ''abcdefghijklmnopqrstuvwxyz''"
  by (simp add: toLowerCase_def lower_char_def)

lemma lower_char_others:
  "toLowerCase ''abcdefghijklmnopqrstuvwxyz0123456789'' = ''abcdefghijklmnopqrstuvwxyz0123456789''"
  by (simp add: toLowerCase_def lower_char_def)

text \<open>
  An element that is a hash string has no \<open>from\<close> and no \<open>to\<close>: it passes the test of
  the loop only when \<open>WATCH\<close> is empty, which the guard at the top of the module excludes.
\<close>

lemma involves_WATCH_hash: "involves_WATCH en (HashOnly h) \<longleftrightarrow> WATCH en = []"
  by (auto simp: involves_WATCH_def entry_from_def entry_to_def or_empty_def toLowerCase_def)

lemma ethers_block_lines:
  assumes "WATCH en \<noteq> []"
  shows "normal_lines en bn (block_txs (Some (ethers_block txs))) = []"
  using assms
  by (simp add: normal_lines_def block_txs_def ethers_block_def filter_empty_conv
        involves_WATCH_hash)

lemma upper_distinct: "distinct ''ABCDEFGHIJKLMNOPQRSTUVWXYZ''"
  by simp

lemma lower_distinct: "distinct ''abcdefghijklmnopqrstuvwxyz''"
  by simp

lemma upper_lower_disjoint:
  "set ''ABCDEFGHIJKLMNOPQRSTUVWXYZ'' \<inter> set ''abcdefghijklmnopqrstuvwxyz'' = {}"
  by simp

lemma zip_unique:
  assumes "distinct us" and "distinct ls" and "length us = length ls" and "set us \<inter> set ls = {}"
  shows "((case map_of (zip us ls) x of None \<Rightarrow> x | Some d \<Rightarrow> d)
          = (case map_of (zip us ls) y of None \<Rightarrow> y | Some d \<Rightarrow> d))
         \<longleftrightarrow> (x = y \<or> (x, y) \<in> set (zip us ls) \<or> (y, x) \<in> set (zip us ls))"
proof -
  have d: "distinct (map fst (zip us ls))" using assms by simp
  have m: "map_of (zip us ls) a = Some b \<longleftrightarrow> (a, b) \<in> set (zip us ls)" for a b
    using d by (simp add: map_of_eq_Some_iff)
  have inj: "(a, b) \<in> set (zip us ls) \<Longrightarrow> (a', b) \<in> set (zip us ls) \<Longrightarrow> a = a'" for a a' b
    using assms(1,2,3)
    by (metis distinct_zipI2 in_set_zip nth_eq_iff_index_eq fst_conv snd_conv length_zip min.idem)
  have dis: "(a, b) \<in> set (zip us ls) \<Longrightarrow> (b, c) \<in> set (zip us ls) \<Longrightarrow> False" for a b c
    using assms(4) by (meson disjoint_iff set_zip_leftD set_zip_rightD)
  show ?thesis
  proof (cases "map_of (zip us ls) x")
    case None
    note nx = this
    show ?thesis
    proof (cases "map_of (zip us ls) y")
      case None
      with nx m show ?thesis by (metis option.simps(4) option.distinct(1))
    next
      case (Some e)
      with nx m show ?thesis by (metis option.simps(4,5) option.distinct(1) option.inject)
    qed
  next
    case (Some d)
    note sx = this
    show ?thesis
    proof (cases "map_of (zip us ls) y")
      case None
      with sx m show ?thesis by (metis option.simps(4,5) option.distinct(1) option.inject)
    next
      case (Some e)
      with sx m inj dis show ?thesis by (metis option.simps(5) option.inject)
    qed
  qed
qed

text \<open>
  Lower-casing sends two characters to the same one exactly when they are the same letter
  in either case, and two strings to the same one exactly when they are equal up to the
  case of their letters.
\<close>

lemma same_letter_iff: "lower_char x = lower_char y \<longleftrightarrow> same_letter x y"
  unfolding lower_char_def same_letter_def
  by (rule zip_unique [OF upper_distinct lower_distinct _ upper_lower_disjoint]) simp

lemma toLowerCase_eq_iff: "toLowerCase a = toLowerCase b \<longleftrightarrow> ci_equal a b"
proof -
  have "map lower_char a = map lower_char b \<longleftrightarrow> list_all2 (\<lambda>x y. lower_char x = lower_char y) a b"
    by (simp add: list.rel_eq [symmetric] list.rel_map del: list.rel_eq)
  then show ?thesis by (simp add: toLowerCase_def ci_equal_def same_letter_iff)
qed

text \<open>
  On a transaction object the test of line 87 is the one the claim describes: the sender
  or the recipient is the configured address up to the case of the letters.
\<close>

lemma involves_WATCH_object:
  assumes "WATCH en \<noteq> []"
  shows "involves_WATCH en (FullTx t) \<longleftrightarrow> touches_address (or_empty (ADDRESS en)) t"
proof -
  have "toLowerCase (or_empty x) = WATCH en
          \<longleftrightarrow> (case x of None \<Rightarrow> False | Some f \<Rightarrow> ci_equal f (or_empty (ADDRESS en)))" for x
  proof (cases x)
    case None
    with assms show ?thesis by (auto simp: or_empty_def toLowerCase_def)
  next
    case (Some f)
    then show ?thesis using toLowerCase_eq_iff [of f "or_empty (ADDRESS en)"]
      by (simp add: WATCH_def or_empty_def)
  qed
  then show ?thesis
    by (simp add: involves_WATCH_def touches_address_def entry_from_def entry_to_def)
qed

lemma loop_over_objects:
  assumes "WATCH en \<noteq> []"
  shows "emitted_normal (normal_lines en bn (map FullTx txs)) =
           map (\<lambda>t. S (tx_hash t)) (filter (touches_address (or_empty (ADDRESS en))) txs)"
  using assms
  by (simp add: emitted_normal_lines filter_map comp_def involves_WATCH_object entry_hash_def
        opt_arg_def)

text \<open>
  On the block that \<^verbatim>\<open>getBlock\<close> returns, whatever its transactions, \<^verbatim>\<open>handleBlock\<close>
  announces no normal transaction.
\<close>

lemma handleBlock_on_ethers_block:
  assumes "WATCH en \<noteq> []"
    and "http_getBlock en (length (getBlock_calls w)) bn = Inr (Some (ethers_block txs))"
  shows "emitted_normal (console (fst (handleBlock en bn w))) = emitted_normal (console w)"
  using handleBlock_emitted [OF assms(2)] assms(1)
  by (simp add: block_txs_def ethers_block_def filter_empty_conv involves_WATCH_hash)

lemma ex_mixed_touching:
  "filter (touches_address ''0xAB'') ex_mixed =
     [ex_tx ''0x01'' (Some ''0xAb'') (Some ''0xcd''), ex_tx ''0x03'' None (Some ''0xaB'')]"
  by (simp add: ex_mixed_def touches_address_def ci_equal_def same_letter_def ex_tx_def)

lemma ex_mixed_as_objects:
  "emitted_normal (normal_lines (ex_env ax gb) bn (map FullTx ex_mixed)) = [S ''0x01'', S ''0x03'']"
  by (simp add: emitted_normal_lines ex_mixed_def involves_WATCH_def ex_env_WATCH entry_from_def
        entry_to_def entry_hash_def ex_tx_def or_empty_def opt_arg_def
        lower_0xAb lower_0xaB lower_0xcd lower_0xef)
     (simp add: toLowerCase_def)

text \<open>
  C5. The claim is right about what should be announced, and the script does not do it.
  Block 7 holds four transactions, the first sent from the watched address and the third
  sent to it, in other spellings. \<^verbatim>\<open>getBlock(7, true)\<close> hands the block out with the four
  hashes under \<^verbatim>\<open>transactions\<close> and the four objects under \<^verbatim>\<open>prefetchedTransactions\<close>. The
  two transactions that touch the address are the ones to announce, and the loop of
  \<^verbatim>\<open>handleBlock\<close> would announce exactly these if it ran over the objects; it runs over
  \<^verbatim>\<open>block.transactions\<close>, and announces nothing.
\<close>

theorem handleBlock_misses_matching_transactions:
  "http_getBlock (ex_env (ex_history [] []) (ex_node ex_mixed)) 0 7 = Inr (Some (ethers_block ex_mixed))
   \<and> transactions (ethers_block ex_mixed) =
       Some [HashOnly ''0x01'', HashOnly ''0x02'', HashOnly ''0x03'', HashOnly ''0x04'']
   \<and> prefetchedTransactions (ethers_block ex_mixed) = ex_mixed
   \<and> map tx_hash (filter (touches_address ''0xAB'') ex_mixed) = [''0x01'', ''0x03'']
   \<and> emitted_normal (normal_lines (ex_env (ex_history [] []) (ex_node ex_mixed)) 7
                         (map FullTx ex_mixed)) = [S ''0x01'', S ''0x03'']
   \<and> emitted_normal (console (fst (handleBlock (ex_env (ex_history [] []) (ex_node ex_mixed))
                                       7 world0))) = []
   \<and> console (fst (handleBlock (ex_env (ex_history [] []) (ex_node ex_mixed)) 7 world0)) = []"
proof -
  let ?E = "ex_env (ex_history [] []) (ex_node ex_mixed)"
  have g: "http_getBlock ?E 0 7 = Inr (Some (ethers_block ex_mixed))"
    by (simp add: ex_env_fields ex_node_def)
  have t: "transactions (ethers_block ex_mixed) =
             Some [HashOnly ''0x01'', HashOnly ''0x02'', HashOnly ''0x03'', HashOnly ''0x04'']"
    "prefetchedTransactions (ethers_block ex_mixed) = ex_mixed"
    by (simp_all add: ethers_block_def) (simp add: ex_mixed_def ex_tx_def)
  have m: "map tx_hash (filter (touches_address ''0xAB'') ex_mixed) = [''0x01'', ''0x03'']"
    by (simp add: ex_mixed_touching ex_tx_def)
  have w: "WATCH ?E \<noteq> []" by (simp add: ex_env_WATCH)
  have c: "console (fst (handleBlock ?E 7 world0)) = []"
    using g
    by (simp add: handleBlock_eq world0_fields ethers_block_lines [OF w] internal_try_def
          fetchInternalTxs_eq ex_env_fields ex_history_def ex_ok_def result_or_empty_def)
  from g t m c ex_mixed_as_objects [of "ex_history [] []" "ex_node ex_mixed" 7]
  show ?thesis by (simp add: emitted_normal_Nil)
qed

text \<open>
  C10. When \<^verbatim>\<open>getBlock\<close> returns no block, or a block without a transaction list,
  \<^verbatim>\<open>handleBlock\<close> returns normally, announces no normal transaction, and still sends the
  internal-transaction query for that block number: one GET for the internal transactions
  of the watched address, both ends of its block range being the block number.
\<close>

theorem handleBlock_without_transactions:
  assumes "http_getBlock en (length (getBlock_calls w)) bn = Inr blk"
    and "blk = None \<or> (\<exists>b. blk = Some b \<and> transactions b = None)"
  shows "snd (handleBlock en bn w) = Inr ()
         \<and> emitted_normal (console (fst (handleBlock en bn w))) = emitted_normal (console w)
         \<and> requests (fst (handleBlock en bn w)) =
             requests w @ [\<lparr>rq_module = ''account'', rq_action = txlistinternal,
                            rq_address = WATCH en, rq_startblock = bn, rq_endblock = bn,
                            rq_page = 1, rq_offset = 1000, rq_sort = ''asc'',
                            rq_apikey = ETHERSCAN_API_KEY en\<rparr>]"
proof -
  from assms(2) have "block_txs blk = []" by (auto simp: block_txs_def)
  with handleBlock_emitted [OF assms(1)] handleBlock_returns [OF assms(1)]
    handleBlock_requests [OF assms(1)]
  show ?thesis by (simp add: fetch_request_def)
qed

theorem handleBlock_without_transactions_witness:
  "snd (handleBlock (ex_env (ex_history [] []) (\<lambda>k bn. Inr None)) 7 world0) = Inr ()
   \<and> emitted_normal (console (fst (handleBlock (ex_env (ex_history [] []) (\<lambda>k bn. Inr None))
         7 world0))) = []
   \<and> requests (fst (handleBlock (ex_env (ex_history [] []) (\<lambda>k bn. Inr None)) 7 world0)) =
       [\<lparr>rq_module = ''account'', rq_action = txlistinternal, rq_address = ''0xab'',
         rq_startblock = 7, rq_endblock = 7, rq_page = 1, rq_offset = 1000, rq_sort = ''asc'',
         rq_apikey = Some ''key''\<rparr>]"
proof -
  let ?E = "ex_env (ex_history [] []) (\<lambda>k bn. Inr None)"
  have g: "http_getBlock ?E (length (getBlock_calls world0)) 7 = Inr None"
    by (simp add: ex_env_fields)
  have n: "(None :: block option) = None \<or> (\<exists>b. None = Some b \<and> transactions b = None)"
    by simp
  from handleBlock_without_transactions [OF g n] show ?thesis
    by (simp add: world0_fields emitted_normal_Nil ex_env_WATCH ex_env_fields)
qed

section \<open>Responses of the indexing API\<close>

text \<open>
  C4. Take a response whose status is not \<open>1\<close>. When its message is
  \<open>No transactions found\<close>, which the indexing API sends with an empty result list,
  \<^verbatim>\<open>fetchNormalTxs\<close> and \<^verbatim>\<open>fetchInternalTxs\<close> return the empty batch and raise nothing; with
  any other message they raise an error carrying the message.
\<close>

theorem fetch_no_transactions_found:
  assumes "axios_get en (length (requests w)) (fetch_request en txlist a sb eb off) = Inr dn"
    and "axios_get en (length (requests w)) (fetch_request en txlistinternal a sb eb off) = Inr di"
    and "status dn \<noteq> ''1''" and "status di \<noteq> ''1''"
  shows "(message dn = ''No transactions found'' \<and> (result dn = None \<or> result dn = Some [])
            \<longrightarrow> snd (fetchNormalTxs en a sb eb off w) = Inr [])
         \<and> (message dn \<noteq> ''No transactions found''
            \<longrightarrow> snd (fetchNormalTxs en a sb eb off w) = Inl (EtherscanNormalError (message dn)))
         \<and> (message di = ''No transactions found'' \<and> (result di = None \<or> result di = Some [])
            \<longrightarrow> snd (fetchInternalTxs en a sb eb off w) = Inr [])
         \<and> (message di \<noteq> ''No transactions found''
            \<longrightarrow> snd (fetchInternalTxs en a sb eb off w) = Inl (EtherscanInternalError (message di)))"
  using assms by (auto simp: fetchNormalTxs_eq fetchInternalTxs_eq result_or_empty_def)

theorem fetch_no_transactions_found_witness:
  "snd (fetchNormalTxs
          (ex_env (\<lambda>k rq. Inr (ex_none_found (if rq_action rq = txlist then Some [] else None)))
             (ex_node []))
          ''0xab'' 0 99999999 10000 world0) = Inr []
   \<and> snd (fetchInternalTxs
          (ex_env (\<lambda>k rq. Inr (ex_none_found (if rq_action rq = txlist then Some [] else None)))
             (ex_node []))
          ''0xab'' 7 7 1000 world0) = Inr []
   \<and> snd (fetchNormalTxs (ex_env (\<lambda>k rq. Inr ex_rate_limited) (ex_node []))
          ''0xab'' 0 99999999 10000 world0) = Inl (EtherscanNormalError ''NOTOK'')
   \<and> snd (fetchInternalTxs (ex_env (\<lambda>k rq. Inr ex_rate_limited) (ex_node []))
          ''0xab'' 0 99999999 10000 world0) = Inl (EtherscanInternalError ''NOTOK'')"
proof -
  let ?E = "ex_env (\<lambda>k rq. Inr (ex_none_found (if rq_action rq = txlist then Some [] else None)))
              (ex_node [])"
  let ?F = "ex_env (\<lambda>k rq. Inr ex_rate_limited) (ex_node [])"
  have n: "axios_get ?E (length (requests world0)) (fetch_request ?E txlist ''0xab'' 0 99999999 10000)
             = Inr (ex_none_found (Some []))"
    by (simp add: ex_env_fields fetch_request_def)
  have i: "axios_get ?E (length (requests world0))
             (fetch_request ?E txlistinternal ''0xab'' 0 99999999 10000)
             = Inr (ex_none_found None)"
    by (simp add: ex_env_fields fetch_request_def)
  have n': "axios_get ?E (length (requests world0)) (fetch_request ?E txlist ''0xab'' 7 7 1000)
             = Inr (ex_none_found (Some []))"
    by (simp add: ex_env_fields fetch_request_def)
  have i': "axios_get ?E (length (requests world0))
             (fetch_request ?E txlistinternal ''0xab'' 7 7 1000)
             = Inr (ex_none_found None)"
    by (simp add: ex_env_fields fetch_request_def)
  have r: "axios_get ?F (length (requests world0)) (fetch_request ?F act ''0xab'' 0 99999999 10000)
             = Inr ex_rate_limited" for act
    by (simp add: ex_env_fields)
  have s: "status (ex_none_found x) \<noteq> ''1''" "message (ex_none_found x) = ''No transactions found''"
    "result (ex_none_found x) = x" for x
    by (simp_all add: ex_none_found_def)
  have l: "status ex_rate_limited \<noteq> ''1''" "message ex_rate_limited = ''NOTOK''"
    by (simp_all add: ex_rate_limited_def)
  from fetch_no_transactions_found [OF n i s(1) s(1)]
    fetch_no_transactions_found [OF n' i' s(1) s(1)]
    fetch_no_transactions_found [OF r r l(1) l(1)]
  show ?thesis by (simp add: s l)
qed

section \<open>Closing of the websocket\<close>

lemma main_connects: "ws_connects (main en evs) = (if env_complete en then 1 else 0)"
proof (cases "env_complete en")
  case False
  then show ?thesis by (simp add: main_def console_error_def world0_fields)
next
  case True
  obtain w1 r where p: "printHistory en (WATCH en) (world0\<lparr>ws_connects := 1\<rparr>) = (w1, r)"
    by (cases "printHistory en (WATCH en) (world0\<lparr>ws_connects := 1\<rparr>)")
  from printHistory_frame [OF p] have w1: "ws_connects w1 = 1"
    by (simp add: same_process_def)
  show ?thesis
  proof (cases r)
    case (Inl e)
    with True p w1 show ?thesis by (simp add: main_failure console_error_def)
  next
    case (Inr u)
    have "same_wiring (fst (liveMonitor en (WATCH en) w1))
            (foldl (deliver en) (fst (liveMonitor en (WATCH en) w1)) evs)"
      by (rule foldl_deliver_wiring)
    with True p Inr w1 show ?thesis
      by (simp add: main_success [of en w1 u] same_wiring_def liveMonitor_eq)
  qed
qed

lemma main_listeners: "block_listeners (main en evs) \<le> 1"
proof (cases "env_complete en")
  case False
  then show ?thesis by (simp add: main_def console_error_def world0_fields)
next
  case True
  obtain w1 r where p: "printHistory en (WATCH en) (world0\<lparr>ws_connects := 1\<rparr>) = (w1, r)"
    by (cases "printHistory en (WATCH en) (world0\<lparr>ws_connects := 1\<rparr>)")
  from printHistory_frame [OF p] have w1: "block_listeners w1 = 0"
    by (simp add: same_process_def world0_fields)
  show ?thesis
  proof (cases r)
    case (Inl e)
    with True p w1 show ?thesis by (simp add: main_failure console_error_def)
  next
    case (Inr u)
    have "same_wiring (fst (liveMonitor en (WATCH en) w1))
            (foldl (deliver en) (fst (liveMonitor en (WATCH en) w1)) evs)"
      by (rule foldl_deliver_wiring)
    with True p Inr w1 show ?thesis
      by (simp add: main_success [of en w1 u] same_wiring_def liveMonitor_eq)
  qed
qed

lemma deliver_Closed:
  "console (deliver en w Closed) =
     console w @ replicate (if exit_code w = None \<and> \<not> ws_closed w then close_listeners w else 0)
                   (Log T_ws_closed [])
   \<and> requests (deliver en w Closed) = requests w
   \<and> getBlock_calls (deliver en w Closed) = getBlock_calls w"
  by (simp add: deliver_def end_if_idle_frame close_listener_funpow)

lemma deliver_Closed_exit:
  assumes "exit_code w = None" and "pending w = []"
  shows "exit_code (deliver en w Closed) = Some 0"
  using assms by (simp add: deliver_def end_if_idle_def close_listener_funpow)

text \<open>
  C8, amended. When the websocket closes, the script makes no attempt to re-establish the
  subscription. Each registered close listener prints the line asking for a restart of
  the script, and that is all: no request is sent and no block is asked for. No turn of
  the event loop opens a connection or registers a listener; over a whole run the
  websocket connection is opened once and the block listener is registered at most once.
  The process is not left idle: with the websocket closed and no handling in flight it
  ends, with exit code 0.
\<close>

theorem close_is_only_logged:
  "console (deliver en w Closed) =
     console w @ replicate (if exit_code w = None \<and> \<not> ws_closed w then close_listeners w else 0)
                   (Log T_ws_closed [])
   \<and> requests (deliver en w Closed) = requests w
   \<and> getBlock_calls (deliver en w Closed) = getBlock_calls w
   \<and> ws_connects (deliver en w ev) = ws_connects w
   \<and> block_listeners (deliver en w ev) = block_listeners w
   \<and> ws_connects (main en evs) = (if env_complete en then 1 else 0)
   \<and> block_listeners (main en evs) \<le> 1
   \<and> (exit_code w = None \<and> pending w = [] \<longrightarrow> exit_code (deliver en w Closed) = Some 0)"
  using deliver_Closed [of en w] deliver_wiring [of w en ev] main_connects [of en evs]
    main_listeners [of en evs] deliver_Closed_exit [of w en]
  by (simp add: same_wiring_def)

lemma ex_history_empty_backfill:
  "printHistory (ex_env (ex_history [] []) gb) ''0xab'' (world0\<lparr>ws_connects := 1\<rparr>) =
     (world0\<lparr>ws_connects := 1,
        console := [Log T_fetching_normal [S ''0xab''], Log T_found_normal [N 0],
                    Log T_fetching_internal [S ''0xab''], Log T_found_internal [N 0]],
        requests := [fetch_request (ex_env (ex_history [] []) gb) txlist ''0xab'' 0 99999999 10000,
                     fetch_request (ex_env (ex_history [] []) gb) txlistinternal ''0xab'' 0 99999999 10000]\<rparr>,
      Inr ())"
  by (simp add: printHistory_def fetchNormalTxs_eq fetchInternalTxs_eq console_log_def
        ex_env_fields ex_history_def ex_ok_def result_or_empty_def slice_last5_def world0_fields
        fetch_request_def)

lemma ex_env_socket_WATCH: "WATCH (ex_env_socket ax gb) = ''0xab''"
  by (simp add: ex_env_socket_def ex_env_def WATCH_def or_empty_def lower_0xAB)

lemma ex_env_socket_complete: "env_complete (ex_env_socket ax gb)"
  by (simp add: env_complete_def ex_env_socket_WATCH)
     (simp add: ex_env_socket_def ex_env_def truthy_def)

lemma ex_env_socket_fields:
  "axios_get (ex_env_socket ax gb) = ax"
  "http_getBlock (ex_env_socket ax gb) = gb"
  "ETHERSCAN_API_KEY (ex_env_socket ax gb) = Some ''key''"
  "has_websocket (ex_env_socket ax gb) = True"
  by (simp_all add: ex_env_socket_def ex_env_def)

lemma ex_socket_empty_backfill:
  "printHistory (ex_env_socket (ex_history [] []) gb) ''0xab'' (world0\<lparr>ws_connects := 1\<rparr>) =
     (world0\<lparr>ws_connects := 1,
        console := [Log T_fetching_normal [S ''0xab''], Log T_found_normal [N 0],
                    Log T_fetching_internal [S ''0xab''], Log T_found_internal [N 0]],
        requests := [fetch_request (ex_env_socket (ex_history [] []) gb) txlist ''0xab'' 0 99999999 10000,
                     fetch_request (ex_env_socket (ex_history [] []) gb) txlistinternal ''0xab'' 0 99999999 10000]\<rparr>,
      Inr ())"
  by (simp add: printHistory_def fetchNormalTxs_eq fetchInternalTxs_eq console_log_def
        ex_env_socket_fields ex_history_def ex_ok_def result_or_empty_def slice_last5_def
        world0_fields fetch_request_def)

theorem close_is_only_logged_witness:
  "exit_code (main (ex_env (ex_history [] []) (ex_node [])) [Closed]) = Some 0
   \<and> ws_connects (main (ex_env (ex_history [] []) (ex_node [])) [Closed]) = 1"
proof -
  let ?E = "ex_env (ex_history [] []) (ex_node [])"
  have p: "printHistory ?E (WATCH ?E) (world0\<lparr>ws_connects := 1\<rparr>) =
     (world0\<lparr>ws_connects := 1,
        console := [Log T_fetching_normal [S ''0xab''], Log T_found_normal [N 0],
                    Log T_fetching_internal [S ''0xab''], Log T_found_internal [N 0]],
        requests := [fetch_request ?E txlist ''0xab'' 0 99999999 10000,
                     fetch_request ?E txlistinternal ''0xab'' 0 99999999 10000]\<rparr>,
      Inr ())"
    using ex_history_empty_backfill [of "ex_node []"] by (simp add: ex_env_WATCH)
  let ?w = "fst (liveMonitor ?E (WATCH ?E) (fst (printHistory ?E (WATCH ?E) (world0\<lparr>ws_connects := 1\<rparr>))))"
  have m: "main ?E [Closed] = deliver ?E ?w Closed"
    using main_success [OF ex_env_complete p, of "[Closed]"] p by simp
  have idle: "exit_code ?w = None \<and> pending ?w = []"
    using p by (simp add: liveMonitor_eq world0_fields)
  from close_is_only_logged [of ?E ?w Closed "[Closed]"] idle m show ?thesis
    by (simp add: ex_env_complete)
qed

text \<open>
  C8, as the claim states it, fails: after a successful start the websocket closes. No
  connection is opened and no listener registered in answer to it, no request goes out,
  and the process ends with exit code 0; where the provider object has a \<^verbatim>\<open>_websocket\<close>
  field one console line is printed, and otherwise nothing.
\<close>

theorem websocket_close_counterexample:
  "console (main (ex_env (ex_history [] []) (ex_node [])) [Closed]) =
     [Log T_fetching_normal [S ''0xab''], Log T_found_normal [N 0],
      Log T_fetching_internal [S ''0xab''], Log T_found_internal [N 0],
      Log T_live_monitoring [S ''0xab'']]
   \<and> ws_connects (main (ex_env (ex_history [] []) (ex_node [])) [Closed]) = 1
   \<and> block_listeners (main (ex_env (ex_history [] []) (ex_node [])) [Closed]) = 1
   \<and> length (requests (main (ex_env (ex_history [] []) (ex_node [])) [Closed])) = 2
   \<and> exit_code (main (ex_env (ex_history [] []) (ex_node [])) [Closed]) = Some 0
   \<and> console (main (ex_env_socket (ex_history [] []) (ex_node [])) [Closed]) =
     [Log T_fetching_normal [S ''0xab''], Log T_found_normal [N 0],
      Log T_fetching_internal [S ''0xab''], Log T_found_internal [N 0],
      Log T_live_monitoring [S ''0xab''], Log T_ws_closed []]
   \<and> ws_connects (main (ex_env_socket (ex_history [] []) (ex_node [])) [Closed]) = 1
   \<and> block_listeners (main (ex_env_socket (ex_history [] []) (ex_node [])) [Closed]) = 1
   \<and> length (requests (main (ex_env_socket (ex_history [] []) (ex_node [])) [Closed])) = 2
   \<and> exit_code (main (ex_env_socket (ex_history [] []) (ex_node [])) [Closed]) = Some 0"
proof -
  let ?E = "ex_env (ex_history [] []) (ex_node [])"
  let ?F = "ex_env_socket (ex_history [] []) (ex_node [])"
  have p: "printHistory ?E (WATCH ?E) (world0\<lparr>ws_connects := 1\<rparr>) =
     (world0\<lparr>ws_connects := 1,
        console := [Log T_fetching_normal [S ''0xab''], Log T_found_normal [N 0],
                    Log T_fetching_internal [S ''0xab''], Log T_found_internal [N 0]],
        requests := [fetch_request ?E txlist ''0xab'' 0 99999999 10000,
                     fetch_request ?E txlistinternal ''0xab'' 0 99999999 10000]\<rparr>,
      Inr ())"
    using ex_history_empty_backfill [of "ex_node []"] by (simp add: ex_env_WATCH)
  have q: "printHistory ?F (WATCH ?F) (world0\<lparr>ws_connects := 1\<rparr>) =
     (world0\<lparr>ws_connects := 1,
        console := [Log T_fetching_normal [S ''0xab''], Log T_found_normal [N 0],
                    Log T_fetching_internal [S ''0xab''], Log T_found_internal [N 0]],
        requests := [fetch_request ?F txlist ''0xab'' 0 99999999 10000,
                     fetch_request ?F txlistinternal ''0xab'' 0 99999999 10000]\<rparr>,
      Inr ())"
    using ex_socket_empty_backfill [of "ex_node []"] by (simp add: ex_env_socket_WATCH)
  have e: "console (main ?E [Closed]) =
     [Log T_fetching_normal [S ''0xab''], Log T_found_normal [N 0],
      Log T_fetching_internal [S ''0xab''], Log T_found_internal [N 0],
      Log T_live_monitoring [S ''0xab'']]
   \<and> ws_connects (main ?E [Closed]) = 1 \<and> block_listeners (main ?E [Closed]) = 1
   \<and> length (requests (main ?E [Closed])) = 2 \<and> exit_code (main ?E [Closed]) = Some 0"
    by (simp add: main_success [OF ex_env_complete p] liveMonitor_eq ex_env_fields deliver_def
          end_if_idle_def world0_fields ex_env_WATCH)
  have f: "console (main ?F [Closed]) =
     [Log T_fetching_normal [S ''0xab''], Log T_found_normal [N 0],
      Log T_fetching_internal [S ''0xab''], Log T_found_internal [N 0],
      Log T_live_monitoring [S ''0xab''], Log T_ws_closed []]
   \<and> ws_connects (main ?F [Closed]) = 1 \<and> block_listeners (main ?F [Closed]) = 1
   \<and> length (requests (main ?F [Closed])) = 2 \<and> exit_code (main ?F [Closed]) = Some 0"
    by (simp add: main_success [OF ex_env_socket_complete q] liveMonitor_eq ex_env_socket_fields
          deliver_def end_if_idle_def close_listener_def console_log_def world0_fields
          ex_env_socket_WATCH)
  from e f show ?thesis by simp
qed

section \<open>What the backfill prints\<close>

lemma print_hist_normal_headers:
  assumes "print_hist_normal en t w = (w', Inr u)"
  shows "hist_headers (console w') = hist_headers (console w) @ [Log T_hist_normal [S (e_hash t)]]"
  using assms
  by (auto simp: print_hist_normal_def Let_def console_log_def hist_headers_def is_hist_header_def
      split: option.splits if_splits)

lemma print_hist_internal_headers:
  assumes "print_hist_internal en t w = (w', Inr u)"
  shows "hist_headers (console w') = hist_headers (console w) @ [Log T_hist_internal [S (e_hash t)]]"
  using assms
  by (auto simp: print_hist_internal_def Let_def console_log_def hist_headers_def is_hist_header_def
      split: option.splits if_splits)

lemma forEach_headers:
  assumes step: "\<And>t w w' u. f t w = (w', Inr u) \<Longrightarrow>
                   hist_headers (console w') = hist_headers (console w) @ [h t]"
    and run: "forEach f ts w = (w', Inr u)"
  shows "hist_headers (console w') = hist_headers (console w) @ map h ts"
  using run
proof (induction ts arbitrary: w)
  case Nil
  then show ?case by simp
next
  case (Cons t ts)
  obtain w1 r1 where f: "f t w = (w1, r1)" by (cases "f t w")
  show ?case
  proof (cases r1)
    case (Inl e)
    with f Cons.prems show ?thesis by simp
  next
    case (Inr u1)
    with f have h1: "hist_headers (console w1) = hist_headers (console w) @ [h t]"
      by (simp add: step)
    from f Inr Cons.prems have "forEach f ts w1 = (w', Inr u)" by simp
    then have "hist_headers (console w') = hist_headers (console w1) @ map h ts"
      by (rule Cons.IH)
    with h1 show ?thesis by simp
  qed
qed

lemma printHistory_success:
  assumes "snd (printHistory en a w) = Inr ()"
  shows "\<exists>w2 normal w4 w6 internal w8.
           fetchNormalTxs en a 0 99999999 10000 (console_log T_fetching_normal [S a] w)
             = (w2, Inr normal)
           \<and> forEach (print_hist_normal en) (slice_last5 normal)
               (console_log T_found_normal [N (length normal)] w2) = (w4, Inr ())
           \<and> fetchInternalTxs en a 0 99999999 10000 (console_log T_fetching_internal [S a] w4)
             = (w6, Inr internal)
           \<and> forEach (print_hist_internal en) (slice_last5 internal)
               (console_log T_found_internal [N (length internal)] w6) = (w8, Inr ())
           \<and> printHistory en a w = (w8, Inr ())"
proof -
  let ?w1 = "console_log T_fetching_normal [S a] w"
  obtain w2 r2 where f2: "fetchNormalTxs en a 0 99999999 10000 ?w1 = (w2, r2)"
    by (cases "fetchNormalTxs en a 0 99999999 10000 ?w1")
  from assms f2 obtain normal where r2: "r2 = Inr normal"
    by (cases r2) (simp_all add: printHistory_def)
  let ?w3 = "console_log T_found_normal [N (length normal)] w2"
  obtain w4 r4 where f4: "forEach (print_hist_normal en) (slice_last5 normal) ?w3 = (w4, r4)"
    by (cases "forEach (print_hist_normal en) (slice_last5 normal) ?w3")
  from assms f2 r2 f4 have r4: "r4 = Inr ()"
    by (cases r4) (simp_all add: printHistory_def)
  let ?w5 = "console_log T_fetching_internal [S a] w4"
  obtain w6 r6 where f6: "fetchInternalTxs en a 0 99999999 10000 ?w5 = (w6, r6)"
    by (cases "fetchInternalTxs en a 0 99999999 10000 ?w5")
  from assms f2 r2 f4 r4 f6 obtain internal where r6: "r6 = Inr internal"
    by (cases r6) (simp_all add: printHistory_def)
  let ?w7 = "console_log T_found_internal [N (length internal)] w6"
  obtain w8 r8 where f8: "forEach (print_hist_internal en) (slice_last5 internal) ?w7 = (w8, r8)"
    by (cases "forEach (print_hist_internal en) (slice_last5 internal) ?w7")
  from f2 r2 f4 r4 f6 r6 f8 have whole: "printHistory en a w = (w8, r8)"
    by (simp add: printHistory_def)
  with assms have r8: "r8 = Inr ()" by simp
  from f2 r2 f4 r4 f6 r6 f8 r8 whole show ?thesis by blast
qed

lemma print_hist_normal_lines:
  assumes "print_hist_normal en t w = (w', Inr u)"
  shows "console w' = console w @ normal_entry_lines en t"
  using assms
  by (auto simp: print_hist_normal_def Let_def console_log_def normal_entry_lines_def
      split: option.splits if_splits)

lemma print_hist_internal_lines:
  assumes "print_hist_internal en t w = (w', Inr u)"
  shows "console w' = console w @ internal_entry_lines en t"
  using assms
  by (auto simp: print_hist_internal_def Let_def console_log_def internal_entry_lines_def
        or_call_def
      split: option.splits if_splits)

lemma forEach_lines:
  assumes step: "\<And>t w w' u. f t w = (w', Inr u) \<Longrightarrow> console w' = console w @ g t"
    and run: "forEach f ts w = (w', Inr u)"
  shows "console w' = console w @ concat (map g ts)"
  using run
proof (induction ts arbitrary: w)
  case Nil
  then show ?case by simp
next
  case (Cons t ts)
  obtain w1 r1 where f: "f t w = (w1, r1)" by (cases "f t w")
  show ?case
  proof (cases r1)
    case (Inl e)
    with f Cons.prems show ?thesis by simp
  next
    case (Inr u1)
    with f have h1: "console w1 = console w @ g t"
      by (simp add: step)
    from f Inr Cons.prems have "forEach f ts w1 = (w', Inr u)" by simp
    then have "console w' = console w1 @ concat (map g ts)"
      by (rule Cons.IH)
    with h1 show ?thesis by simp
  qed
qed

lemma printHistory_success_requests:
  assumes "snd (printHistory en a w) = Inr ()"
  shows "requests (fst (printHistory en a w)) =
           requests w @ [fetch_request en txlist a 0 99999999 10000,
                         fetch_request en txlistinternal a 0 99999999 10000]"
proof -
  from printHistory_success [OF assms]
  obtain w2 normal w4 w6 internal w8 where
    f2: "fetchNormalTxs en a 0 99999999 10000 (console_log T_fetching_normal [S a] w)
           = (w2, Inr normal)" and
    f4: "forEach (print_hist_normal en) (slice_last5 normal)
           (console_log T_found_normal [N (length normal)] w2) = (w4, Inr ())" and
    f6: "fetchInternalTxs en a 0 99999999 10000 (console_log T_fetching_internal [S a] w4)
           = (w6, Inr internal)" and
    f8: "forEach (print_hist_internal en) (slice_last5 internal)
           (console_log T_found_internal [N (length internal)] w6) = (w8, Inr ())" and
    whole: "printHistory en a w = (w8, Inr ())"
    by blast
  from f2 have r2: "requests w2 = requests w @ [fetch_request en txlist a 0 99999999 10000]"
    by (auto simp: fetchNormalTxs_eq console_log_def)
  from forEach_hist_normal [OF f4] r2 have r4: "requests w4 = requests w2"
    by (simp add: console_only_def console_log_def)
  from f6 have r6: "requests w6 = requests w4 @ [fetch_request en txlistinternal a 0 99999999 10000]"
    by (auto simp: fetchInternalTxs_eq console_log_def)
  from forEach_hist_internal [OF f8] have r8: "requests w8 = requests w6"
    by (simp add: console_only_def console_log_def)
  from whole r2 r4 r6 r8 show ?thesis by simp
qed

text \<open>
  C9, amended. A backfill that completes prints, for the normal batch and then separately
  for the internal batch: the line that announces the fetch, the line with the count of
  the whole batch, and the lines of the last five entries of the batch only, in the order
  the indexing API returned them. The two batches are not merged into one, nothing sorts
  them, and the entries before the last five of a batch are not printed.
\<close>

theorem printHistory_prints_last_five:
  assumes "snd (printHistory en a w) = Inr ()"
    and "axios_get en (length (requests w)) (fetch_request en txlist a 0 99999999 10000) = Inr dn"
    and "axios_get en (Suc (length (requests w))) (fetch_request en txlistinternal a 0 99999999 10000)
           = Inr di"
    and "normal = (case result dn of None \<Rightarrow> [] | Some r \<Rightarrow> r)"
    and "internal = (case result di of None \<Rightarrow> [] | Some r \<Rightarrow> r)"
  shows "console (fst (printHistory en a w)) =
           console w
           @ [Log T_fetching_normal [S a], Log T_found_normal [N (length normal)]]
           @ concat (map (normal_entry_lines en) (drop (length normal - 5) normal))
           @ [Log T_fetching_internal [S a], Log T_found_internal [N (length internal)]]
           @ concat (map (internal_entry_lines en) (drop (length internal - 5) internal))"
proof -
  let ?w1 = "console_log T_fetching_normal [S a] w"
  from printHistory_success [OF assms(1)]
  obtain w2 normal' w4 w6 internal' w8 where
    f2: "fetchNormalTxs en a 0 99999999 10000 ?w1 = (w2, Inr normal')" and
    f4: "forEach (print_hist_normal en) (slice_last5 normal')
           (console_log T_found_normal [N (length normal')] w2) = (w4, Inr ())" and
    f6: "fetchInternalTxs en a 0 99999999 10000 (console_log T_fetching_internal [S a] w4)
           = (w6, Inr internal')" and
    f8: "forEach (print_hist_internal en) (slice_last5 internal')
           (console_log T_found_internal [N (length internal')] w6) = (w8, Inr ())" and
    whole: "printHistory en a w = (w8, Inr ())"
    by blast
  from f2 assms(2,4) have normal: "normal' = normal"
    and w2: "w2 = ?w1\<lparr>requests := requests ?w1 @ [fetch_request en txlist a 0 99999999 10000]\<rparr>"
    by (auto simp: fetchNormalTxs_eq console_log_def result_or_empty_def split: if_splits)
  from forEach_hist_normal [OF f4] w2
  have req4: "requests w4 = requests w @ [fetch_request en txlist a 0 99999999 10000]"
    by (simp add: console_only_def console_log_def)
  from f6 assms(3,5) req4 have internal: "internal' = internal"
    and w6: "console w6 = console w4 @ [Log T_fetching_internal [S a]]"
    by (auto simp: fetchInternalTxs_eq console_log_def result_or_empty_def split: if_splits)
  have c4: "console w4 = console w @ [Log T_fetching_normal [S a], Log T_found_normal [N (length normal)]]
              @ concat (map (normal_entry_lines en) (slice_last5 normal))"
    using forEach_lines [of "print_hist_normal en" "normal_entry_lines en",
        OF print_hist_normal_lines f4]
    by (simp add: w2 normal console_log_def)
  have c8: "console w8 = console w4
              @ [Log T_fetching_internal [S a], Log T_found_internal [N (length internal)]]
              @ concat (map (internal_entry_lines en) (slice_last5 internal))"
    using forEach_lines [of "print_hist_internal en" "internal_entry_lines en",
        OF print_hist_internal_lines f8]
    by (simp add: w6 internal console_log_def)
  from whole c8 c4 show ?thesis by (simp add: slice_last5_def)
qed

lemma ex_print_hist_normal:
  "print_hist_normal (ex_env ax gb) (ex_etx h b) w =
     (w\<lparr>console := console w @
          [Log T_hist_normal [S h], Log T_hist_block_time [N b, S ''2023-11-14T22:13:20.000Z''],
           Log T_hist_from [S ''0xab''], Log T_hist_to [S ''0xcd''],
           Log T_hist_value [S ''0.000000000000000005'']]\<rparr>, Inr ())"
  by (simp add: print_hist_normal_def ex_env_def ex_etx_def console_log_def fmtEth_def
        truthy_def or_empty_def)

lemma ex_print_hist_internal:
  "print_hist_internal (ex_env ax gb) (ex_etx h b) w =
     (w\<lparr>console := console w @
          [Log T_hist_internal [S h], Log T_hist_block_time [N b, S ''2023-11-14T22:13:20.000Z''],
           Log T_hist_from [S ''0xab''], Log T_hist_to [S ''0xcd''],
           Log T_hist_value [S ''0.000000000000000005''], Log T_hist_type [S ''call'']]\<rparr>, Inr ())"
  by (simp add: print_hist_internal_def ex_env_def ex_etx_def console_log_def fmtEth_def
        truthy_def or_empty_def or_call_def)

lemma ex_forEach_hist_normal:
  "snd (forEach (print_hist_normal (ex_env ax gb)) (map (\<lambda>(h, b). ex_etx h b) hbs) w) = Inr ()
   \<and> console_only w (fst (forEach (print_hist_normal (ex_env ax gb)) (map (\<lambda>(h, b). ex_etx h b) hbs) w))
   \<and> hist_headers (console (fst (forEach (print_hist_normal (ex_env ax gb))
                                    (map (\<lambda>(h, b). ex_etx h b) hbs) w)))
       = hist_headers (console w) @ map (\<lambda>(h, b). Log T_hist_normal [S h]) hbs"
proof (induction hbs arbitrary: w)
  case Nil
  show ?case by (simp add: console_only_def same_process_def)
next
  case (Cons hb hbs)
  obtain h b where hb: "hb = (h, b)" by (cases hb)
  let ?w = "w\<lparr>console := console w @
          [Log T_hist_normal [S h], Log T_hist_block_time [N b, S ''2023-11-14T22:13:20.000Z''],
           Log T_hist_from [S ''0xab''], Log T_hist_to [S ''0xcd''],
           Log T_hist_value [S ''0.000000000000000005'']]\<rparr>"
  from Cons.IH [of ?w] show ?case
    by (simp add: hb ex_print_hist_normal console_only_def same_process_def hist_headers_def
          is_hist_header_def)
qed

lemma ex_forEach_hist_internal:
  "snd (forEach (print_hist_internal (ex_env ax gb)) (map (\<lambda>(h, b). ex_etx h b) hbs) w) = Inr ()
   \<and> hist_headers (console (fst (forEach (print_hist_internal (ex_env ax gb))
                                    (map (\<lambda>(h, b). ex_etx h b) hbs) w)))
       = hist_headers (console w) @ map (\<lambda>(h, b). Log T_hist_internal [S h]) hbs"
proof (induction hbs arbitrary: w)
  case Nil
  show ?case by simp
next
  case (Cons hb hbs)
  obtain h b where hb: "hb = (h, b)" by (cases hb)
  let ?w = "w\<lparr>console := console w @
          [Log T_hist_internal [S h], Log T_hist_block_time [N b, S ''2023-11-14T22:13:20.000Z''],
           Log T_hist_from [S ''0xab''], Log T_hist_to [S ''0xcd''],
           Log T_hist_value [S ''0.000000000000000005''], Log T_hist_type [S ''call'']]\<rparr>"
  from Cons.IH [of ?w] show ?case
    by (simp add: hb ex_print_hist_internal hist_headers_def is_hist_header_def)
qed

lemma slice_last5_batch: "slice_last5 (ex_batch hbs) = map (\<lambda>(h, b). ex_etx h b) (slice_last5 hbs)"
  by (simp add: slice_last5_def ex_batch_def drop_map)

lemma ex_backfill:
  "snd (printHistory (ex_env (ex_history (ex_batch ns) (ex_batch is)) gb) a w) = Inr ()
   \<and> hist_headers (console (fst (printHistory (ex_env (ex_history (ex_batch ns) (ex_batch is)) gb) a w)))
       = hist_headers (console w)
         @ map (\<lambda>(h, b). Log T_hist_normal [S h]) (slice_last5 ns)
         @ map (\<lambda>(h, b). Log T_hist_internal [S h]) (slice_last5 is)"
proof -
  let ?E = "ex_env (ex_history (ex_batch ns) (ex_batch is)) gb"
  let ?w1 = "console_log T_fetching_normal [S a] w"
  let ?w2 = "?w1\<lparr>requests := requests ?w1 @ [fetch_request ?E txlist a 0 99999999 10000]\<rparr>"
  let ?w3 = "console_log T_found_normal [N (length (ex_batch ns))] ?w2"
  let ?f4 = "forEach (print_hist_normal ?E) (slice_last5 (ex_batch ns)) ?w3"
  let ?w5 = "console_log T_fetching_internal [S a] (fst ?f4)"
  let ?w6 = "?w5\<lparr>requests := requests ?w5 @ [fetch_request ?E txlistinternal a 0 99999999 10000]\<rparr>"
  let ?w7 = "console_log T_found_internal [N (length (ex_batch is))] ?w6"
  let ?f8 = "forEach (print_hist_internal ?E) (slice_last5 (ex_batch is)) ?w7"
  have f2: "fetchNormalTxs ?E a 0 99999999 10000 ?w1 = (?w2, Inr (ex_batch ns))"
    by (simp add: fetchNormalTxs_eq ex_env_fields ex_history_def ex_ok_def result_or_empty_def
          fetch_request_def)
  have s4: "snd ?f4 = Inr ()"
    and h4: "hist_headers (console (fst ?f4)) = hist_headers (console ?w3)
               @ map (\<lambda>(h, b). Log T_hist_normal [S h]) (slice_last5 ns)"
    using ex_forEach_hist_normal [of "ex_history (ex_batch ns) (ex_batch is)" gb "slice_last5 ns" ?w3]
    by (simp_all add: slice_last5_batch)
  from s4 have f4: "?f4 = (fst ?f4, Inr ())" by (cases ?f4) simp
  have f6: "fetchInternalTxs ?E a 0 99999999 10000 ?w5 = (?w6, Inr (ex_batch is))"
    by (simp add: fetchInternalTxs_eq ex_env_fields ex_history_def ex_ok_def result_or_empty_def
          fetch_request_def)
  have s8: "snd ?f8 = Inr ()"
    and h8: "hist_headers (console (fst ?f8)) = hist_headers (console ?w7)
               @ map (\<lambda>(h, b). Log T_hist_internal [S h]) (slice_last5 is)"
    using ex_forEach_hist_internal [of "ex_history (ex_batch ns) (ex_batch is)" gb "slice_last5 is" ?w7]
    by (simp_all add: slice_last5_batch)
  have whole: "printHistory ?E a w = ?f8"
    unfolding printHistory_def Let_def f2 prod.case sum.case
    by (subst f4) (simp only: prod.case sum.case f6)
  have h3: "hist_headers (console ?w3) = hist_headers (console w)"
    by (simp add: console_log_def hist_headers_def is_hist_header_def)
  have h7: "hist_headers (console ?w7) = hist_headers (console (fst ?f4))"
    by (simp add: console_log_def hist_headers_def is_hist_header_def)
  from whole s8 h8 h7 h4 h3 show ?thesis by simp
qed

text \<open>
  C9, as the claim states it, fails: with six normal transactions in blocks 11 to 16 and
  one internal transaction in block 3, the backfill prints the normal transactions of
  blocks 12 to 16 and after them the internal transaction of block 3. The transaction of
  block 11 is missing, and the entry of the earliest block comes last.
\<close>

theorem backfill_not_merged_counterexample:
  "map e_hash (ex_batch ex_six) = [''n1'', ''n2'', ''n3'', ''n4'', ''n5'', ''n6'']
   \<and> map e_blockNumber (ex_batch ex_six) = [11, 12, 13, 14, 15, 16]
   \<and> map e_blockNumber (ex_batch [(''i1'', 3)]) = [3]
   \<and> snd (printHistory (ex_env (ex_history (ex_batch ex_six) (ex_batch [(''i1'', 3)])) (ex_node []))
            ''0xab'' world0) = Inr ()
   \<and> hist_headers (console (fst (printHistory
          (ex_env (ex_history (ex_batch ex_six) (ex_batch [(''i1'', 3)])) (ex_node []))
          ''0xab'' world0)))
       = [Log T_hist_normal [S ''n2''], Log T_hist_normal [S ''n3''], Log T_hist_normal [S ''n4''],
          Log T_hist_normal [S ''n5''], Log T_hist_normal [S ''n6''], Log T_hist_internal [S ''i1'']]"
proof -
  have d: "map e_hash (ex_batch ex_six) = [''n1'', ''n2'', ''n3'', ''n4'', ''n5'', ''n6'']"
    "map e_blockNumber (ex_batch ex_six) = [11, 12, 13, 14, 15, 16]"
    "map e_blockNumber (ex_batch [(''i1'', 3)]) = [3]"
    by (simp_all add: ex_batch_def ex_six_def ex_etx_def)
  have s: "slice_last5 ex_six = [(''n2'', 12), (''n3'', 13), (''n4'', 14), (''n5'', 15), (''n6'', 16)]"
    "slice_last5 [(''i1'', 3::nat)] = [(''i1'', 3)]"
    by (simp_all add: slice_last5_def ex_six_def)
  from ex_backfill [of ex_six "[(''i1'', 3)]" "ex_node []" "''0xab''" world0] d show ?thesis
    by (simp add: s world0_fields hist_headers_def)
qed

lemma ex_entry_lines:
  "normal_entry_lines (ex_env ax gb) (ex_etx h b) =
     [Log T_hist_normal [S h], Log T_hist_block_time [N b, S ''2023-11-14T22:13:20.000Z''],
      Log T_hist_from [S ''0xab''], Log T_hist_to [S ''0xcd''],
      Log T_hist_value [S ''0.000000000000000005'']]"
  "internal_entry_lines (ex_env ax gb) (ex_etx h b) =
     [Log T_hist_internal [S h], Log T_hist_block_time [N b, S ''2023-11-14T22:13:20.000Z''],
      Log T_hist_from [S ''0xab''], Log T_hist_to [S ''0xcd''],
      Log T_hist_value [S ''0.000000000000000005''], Log T_hist_type [S ''call'']]"
  by (simp_all add: normal_entry_lines_def internal_entry_lines_def ex_env_def ex_etx_def
        fmtEth_def truthy_def or_empty_def)

theorem printHistory_prints_last_five_witness:
  "console (fst (printHistory
       (ex_env (ex_history (ex_batch ex_six) (ex_batch [(''i1'', 3)])) (ex_node []))
       ''0xab'' world0))
     = [Log T_fetching_normal [S ''0xab''], Log T_found_normal [N 6]]
       @ concat (map (\<lambda>(h, b).
                        [Log T_hist_normal [S h],
                         Log T_hist_block_time [N b, S ''2023-11-14T22:13:20.000Z''],
                         Log T_hist_from [S ''0xab''], Log T_hist_to [S ''0xcd''],
                         Log T_hist_value [S ''0.000000000000000005'']])
                   [(''n2'', 12), (''n3'', 13), (''n4'', 14), (''n5'', 15), (''n6'', 16)])
       @ [Log T_fetching_internal [S ''0xab''], Log T_found_internal [N 1],
          Log T_hist_internal [S ''i1''],
          Log T_hist_block_time [N 3, S ''2023-11-14T22:13:20.000Z''],
          Log T_hist_from [S ''0xab''], Log T_hist_to [S ''0xcd''],
          Log T_hist_value [S ''0.000000000000000005''], Log T_hist_type [S ''call'']]"
proof -
  let ?E = "ex_env (ex_history (ex_batch ex_six) (ex_batch [(''i1'', 3)])) (ex_node [])"
  have ok: "snd (printHistory ?E ''0xab'' world0) = Inr ()"
    using ex_backfill [of ex_six "[(''i1'', 3)]" "ex_node []" "''0xab''" world0] by simp
  have n: "axios_get ?E (length (requests world0)) (fetch_request ?E txlist ''0xab'' 0 99999999 10000)
             = Inr (ex_ok (ex_batch ex_six))"
    by (simp add: ex_env_fields ex_history_def fetch_request_def)
  have i: "axios_get ?E (Suc (length (requests world0)))
             (fetch_request ?E txlistinternal ''0xab'' 0 99999999 10000)
             = Inr (ex_ok (ex_batch [(''i1'', 3)]))"
    by (simp add: ex_env_fields ex_history_def fetch_request_def)
  have rn: "ex_batch ex_six = (case result (ex_ok (ex_batch ex_six)) of None \<Rightarrow> [] | Some r \<Rightarrow> r)"
    by (simp add: ex_ok_def)
  have ri: "ex_batch [(''i1'', 3)] =
              (case result (ex_ok (ex_batch [(''i1'', 3)])) of None \<Rightarrow> [] | Some r \<Rightarrow> r)"
    by (simp add: ex_ok_def)
  from printHistory_prints_last_five [OF ok n i rn ri] show ?thesis
    by (simp add: world0_fields ex_batch_def ex_six_def ex_entry_lines)
qed

section \<open>From backfill to live tailing\<close>

lemma block_listener_requests:
  assumes "http_getBlock en (length (getBlock_calls w)) bn = Inr blk"
  shows "requests (block_listener en bn w) =
           requests w @ [\<lparr>rq_module = ''account'', rq_action = txlistinternal,
                          rq_address = WATCH en, rq_startblock = bn, rq_endblock = bn,
                          rq_page = 1, rq_offset = 1000, rq_sort = ''asc'',
                          rq_apikey = ETHERSCAN_API_KEY en\<rparr>]"
proof -
  from handleBlock_returns [OF assms]
  have "block_listener en bn w = fst (handleBlock en bn w)"
    by (cases "handleBlock en bn w") (simp add: block_listener_def)
  with handleBlock_requests [OF assms] show ?thesis by (simp add: fetch_request_def)
qed

lemma foldl_block_listener_requests:
  assumes "\<forall>k bn. \<exists>blk. http_getBlock en k bn = Inr blk"
  shows "requests (foldl (\<lambda>w bn. block_listener en bn w) w bns) =
           requests w @ map (\<lambda>bn. \<lparr>rq_module = ''account'', rq_action = txlistinternal,
                                    rq_address = WATCH en, rq_startblock = bn, rq_endblock = bn,
                                    rq_page = 1, rq_offset = 1000, rq_sort = ''asc'',
                                    rq_apikey = ETHERSCAN_API_KEY en\<rparr>) bns"
proof (induction bns arbitrary: w)
  case Nil
  show ?case by simp
next
  case (Cons bn bns)
  from assms obtain blk where "http_getBlock en (length (getBlock_calls w)) bn = Inr blk"
    by blast
  from block_listener_requests [OF this] Cons.IH [of "block_listener en bn w"]
  show ?case by simp
qed

text \<open>
  C1, amended. The script keeps no cursor: the backfill records no block number. After a
  backfill that completes, the live tailer asks the node for every block number that the
  subscription delivers before the websocket closes, once for each delivery and in the
  order of delivery, whatever the backfill contained: no delivered number is skipped and
  no other number is asked for. When every handling ends before the next number arrives,
  the run ends in the state that the block listener, \<^verbatim>\<open>handleBlock\<close> inside its
  \<^verbatim>\<open>try\<close>, produces when applied to each delivered number in turn, starting from the
  state the backfill and \<^verbatim>\<open>liveMonitor\<close> left; when moreover the node answers, the
  requests of the whole run are the two queries of the backfill and then, for each
  delivered number in the same order, one internal-transaction query for the watched
  address restricted to that single block.
\<close>

theorem live_tailer_follows_delivery:
  assumes "env_complete en"
    and "snd (printHistory en (WATCH en) (world0\<lparr>ws_connects := 1\<rparr>)) = Inr ()"
  shows "getBlock_calls (main en evs) = delivered_blocks evs
         \<and> ((\<forall>k bn. \<exists>blk. http_getBlock en k bn = Inr blk) \<longrightarrow>
              requests (main en (one_by_one bns)) =
                [\<lparr>rq_module = ''account'', rq_action = txlist, rq_address = WATCH en,
                  rq_startblock = 0, rq_endblock = 99999999, rq_page = 1, rq_offset = 10000,
                  rq_sort = ''asc'', rq_apikey = ETHERSCAN_API_KEY en\<rparr>,
                 \<lparr>rq_module = ''account'', rq_action = txlistinternal, rq_address = WATCH en,
                  rq_startblock = 0, rq_endblock = 99999999, rq_page = 1, rq_offset = 10000,
                  rq_sort = ''asc'', rq_apikey = ETHERSCAN_API_KEY en\<rparr>]
                @ map (\<lambda>bn. \<lparr>rq_module = ''account'', rq_action = txlistinternal,
                               rq_address = WATCH en, rq_startblock = bn, rq_endblock = bn,
                               rq_page = 1, rq_offset = 1000, rq_sort = ''asc'',
                               rq_apikey = ETHERSCAN_API_KEY en\<rparr>) bns)
         \<and> main en (one_by_one bns) =
             foldl (\<lambda>w bn. block_listener en bn w)
               (fst (liveMonitor en (WATCH en)
                      (fst (printHistory en (WATCH en) (world0\<lparr>ws_connects := 1\<rparr>))))) bns"
proof -
  obtain w1 where p: "printHistory en (WATCH en) (world0\<lparr>ws_connects := 1\<rparr>) = (w1, Inr ())"
    using assms(2) by (cases "printHistory en (WATCH en) (world0\<lparr>ws_connects := 1\<rparr>)") simp
  from printHistory_frame [OF p]
  have w1: "getBlock_calls w1 = []" "block_listeners w1 = 0" "exit_code w1 = None"
    "pending w1 = []" "\<not> ws_closed w1"
    by (simp_all add: same_process_def world0_fields)
  from printHistory_success_requests [OF assms(2)] p
  have r1: "requests w1 = [fetch_request en txlist (WATCH en) 0 99999999 10000,
                           fetch_request en txlistinternal (WATCH en) 0 99999999 10000]"
    by (simp add: world0_fields)
  let ?w2 = "fst (liveMonitor en (WATCH en) w1)"
  from w1 r1 have w2: "getBlock_calls ?w2 = []" "block_listeners ?w2 = 1" "exit_code ?w2 = None"
    "pending ?w2 = []" "\<not> ws_closed ?w2" "requests ?w2 = requests w1"
    by (simp_all add: liveMonitor_eq)
  have m: "main en evs' = foldl (deliver en) ?w2 evs'" for evs'
    by (rule main_success [OF assms(1) p])
  from foldl_deliver_calls [OF w2(2,5,3), of en evs] w2(1) m [of evs]
  have calls: "getBlock_calls (main en evs) = delivered_blocks evs" by simp
  have "requests (main en (one_by_one bns)) =
          requests w1 @ map (\<lambda>bn. \<lparr>rq_module = ''account'', rq_action = txlistinternal,
                               rq_address = WATCH en, rq_startblock = bn, rq_endblock = bn,
                               rq_page = 1, rq_offset = 1000, rq_sort = ''asc'',
                               rq_apikey = ETHERSCAN_API_KEY en\<rparr>) bns"
    if "\<forall>k bn. \<exists>blk. http_getBlock en k bn = Inr blk"
    using foldl_one_by_one [OF w2(2,5,3,4), of en bns]
      foldl_block_listener_requests [OF that, of ?w2 bns] m [of "one_by_one bns"] w2(6)
    by simp
  with r1 have reqs: "(\<forall>k bn. \<exists>blk. http_getBlock en k bn = Inr blk) \<longrightarrow>
      requests (main en (one_by_one bns)) =
        [\<lparr>rq_module = ''account'', rq_action = txlist, rq_address = WATCH en,
          rq_startblock = 0, rq_endblock = 99999999, rq_page = 1, rq_offset = 10000,
          rq_sort = ''asc'', rq_apikey = ETHERSCAN_API_KEY en\<rparr>,
         \<lparr>rq_module = ''account'', rq_action = txlistinternal, rq_address = WATCH en,
          rq_startblock = 0, rq_endblock = 99999999, rq_page = 1, rq_offset = 10000,
          rq_sort = ''asc'', rq_apikey = ETHERSCAN_API_KEY en\<rparr>]
        @ map (\<lambda>bn. \<lparr>rq_module = ''account'', rq_action = txlistinternal,
                       rq_address = WATCH en, rq_startblock = bn, rq_endblock = bn,
                       rq_page = 1, rq_offset = 1000, rq_sort = ''asc'',
                       rq_apikey = ETHERSCAN_API_KEY en\<rparr>) bns"
    by (simp add: fetch_request_def)
  have "main en (one_by_one bns) = foldl (\<lambda>w bn. block_listener en bn w) ?w2 bns"
    using foldl_one_by_one [OF w2(2,5,3,4), of en bns] m [of "one_by_one bns"] by simp
  with p have run: "main en (one_by_one bns) =
             foldl (\<lambda>w bn. block_listener en bn w)
               (fst (liveMonitor en (WATCH en)
                      (fst (printHistory en (WATCH en) (world0\<lparr>ws_connects := 1\<rparr>))))) bns"
    by simp
  from calls reqs run show ?thesis by (intro conjI)
qed

theorem live_tailer_follows_delivery_witness:
  "getBlock_calls (main (ex_env (ex_history (ex_batch [(''0xh7'', 7)]) (ex_batch [])) (ex_node []))
                     [NewBlock 9, Reply 0, Closed, NewBlock 11]) = [9]
   \<and> requests (main (ex_env (ex_history (ex_batch [(''0xh7'', 7)]) (ex_batch [])) (ex_node []))
                 (one_by_one [9, 11])) =
       [\<lparr>rq_module = ''account'', rq_action = txlist, rq_address = ''0xab'',
         rq_startblock = 0, rq_endblock = 99999999, rq_page = 1, rq_offset = 10000,
         rq_sort = ''asc'', rq_apikey = Some ''key''\<rparr>,
        \<lparr>rq_module = ''account'', rq_action = txlistinternal, rq_address = ''0xab'',
         rq_startblock = 0, rq_endblock = 99999999, rq_page = 1, rq_offset = 10000,
         rq_sort = ''asc'', rq_apikey = Some ''key''\<rparr>,
        \<lparr>rq_module = ''account'', rq_action = txlistinternal, rq_address = ''0xab'',
         rq_startblock = 9, rq_endblock = 9, rq_page = 1, rq_offset = 1000,
         rq_sort = ''asc'', rq_apikey = Some ''key''\<rparr>,
        \<lparr>rq_module = ''account'', rq_action = txlistinternal, rq_address = ''0xab'',
         rq_startblock = 11, rq_endblock = 11, rq_page = 1, rq_offset = 1000,
         rq_sort = ''asc'', rq_apikey = Some ''key''\<rparr>]"
proof -
  let ?E = "ex_env (ex_history (ex_batch [(''0xh7'', 7)]) (ex_batch [])) (ex_node [])"
  have ok: "snd (printHistory ?E (WATCH ?E) (world0\<lparr>ws_connects := 1\<rparr>)) = Inr ()"
    using ex_backfill [of "[(''0xh7'', 7)]" "[]" "ex_node []" "WATCH ?E" "world0\<lparr>ws_connects := 1\<rparr>"]
    by simp
  have node: "\<forall>k bn. \<exists>blk. http_getBlock ?E k bn = Inr blk"
    by (simp add: ex_env_fields ex_node_def)
  note t = live_tailer_follows_delivery [OF ex_env_complete ok,
      of "[NewBlock 9, Reply 0, Closed, NewBlock 11]" "[9, 11]"]
  from t [THEN conjunct1] have calls: "getBlock_calls (main ?E [NewBlock 9, Reply 0, Closed, NewBlock 11]) = [9]"
    by simp
  from t [THEN conjunct2, THEN conjunct1] node
  have "requests (main ?E (one_by_one [9, 11])) =
       [\<lparr>rq_module = ''account'', rq_action = txlist, rq_address = ''0xab'',
         rq_startblock = 0, rq_endblock = 99999999, rq_page = 1, rq_offset = 10000,
         rq_sort = ''asc'', rq_apikey = Some ''key''\<rparr>,
        \<lparr>rq_module = ''account'', rq_action = txlistinternal, rq_address = ''0xab'',
         rq_startblock = 0, rq_endblock = 99999999, rq_page = 1, rq_offset = 10000,
         rq_sort = ''asc'', rq_apikey = Some ''key''\<rparr>,
        \<lparr>rq_module = ''account'', rq_action = txlistinternal, rq_address = ''0xab'',
         rq_startblock = 9, rq_endblock = 9, rq_page = 1, rq_offset = 1000,
         rq_sort = ''asc'', rq_apikey = Some ''key''\<rparr>,
        \<lparr>rq_module = ''account'', rq_action = txlistinternal, rq_address = ''0xab'',
         rq_startblock = 11, rq_endblock = 11, rq_page = 1, rq_offset = 1000,
         rq_sort = ''asc'', rq_apikey = Some ''key''\<rparr>]"
    by (simp add: ex_env_WATCH ex_env_fields)
  with calls show ?thesis by (intro conjI)
qed

text \<open>
  C1, as the claim states it, fails: the indexer holds one internal transfer of the
  watched address, in block 7, and the backfill prints it. The subscription then delivers
  7 and 9. The tailer handles block 7, the highest block of the backfill, and announces
  the same transfer a second time; block 8 is never asked for.
\<close>

theorem handoff_counterexample:
  "getBlock_calls (main (ex_env (ex_indexer [] (ex_batch [(''0xp7'', 7)])) (ex_node []))
                     [NewBlock 7, Reply 0, Reply 0, NewBlock 9, Reply 0, Reply 0]) = [7, 9]
   \<and> console (main (ex_env (ex_indexer [] (ex_batch [(''0xp7'', 7)])) (ex_node []))
                [NewBlock 7, Reply 0, Reply 0, NewBlock 9, Reply 0, Reply 0]) =
       [Log T_fetching_normal [S ''0xab''], Log T_found_normal [N 0],
        Log T_fetching_internal [S ''0xab''], Log T_found_internal [N 1],
        Log T_hist_internal [S ''0xp7''],
        Log T_hist_block_time [N 7, S ''2023-11-14T22:13:20.000Z''],
        Log T_hist_from [S ''0xab''], Log T_hist_to [S ''0xcd''],
        Log T_hist_value [S ''0.000000000000000005''], Log T_hist_type [S ''call''],
        Log T_live_monitoring [S ''0xab''],
        Log T_new_internal [], Log T_block [N 7], Log T_parent_tx [S ''0xp7''],
        Log T_from [S ''0xab''], Log T_to [S ''0xcd''],
        Log T_value_eth [S ''0.000000000000000005''], Log T_type [S ''call'']]"
proof -
  let ?E = "ex_env (ex_indexer [] (ex_batch [(''0xp7'', 7)])) (ex_node [])"
  let ?wH = "world0\<lparr>ws_connects := 1,
        console := [Log T_fetching_normal [S ''0xab''], Log T_found_normal [N 0],
          Log T_fetching_internal [S ''0xab''], Log T_found_internal [N 1],
          Log T_hist_internal [S ''0xp7''],
          Log T_hist_block_time [N 7, S ''2023-11-14T22:13:20.000Z''],
          Log T_hist_from [S ''0xab''], Log T_hist_to [S ''0xcd''],
          Log T_hist_value [S ''0.000000000000000005''], Log T_hist_type [S ''call'']],
        requests := [fetch_request ?E txlist ''0xab'' 0 99999999 10000,
                     fetch_request ?E txlistinternal ''0xab'' 0 99999999 10000]\<rparr>"
  have p: "printHistory ?E (WATCH ?E) (world0\<lparr>ws_connects := 1\<rparr>) = (?wH, Inr ())"
    by (simp add: ex_env_WATCH printHistory_def fetchNormalTxs_eq fetchInternalTxs_eq
          console_log_def ex_env_fields ex_indexer_def ex_ok_def result_or_empty_def
          slice_last5_def world0_fields fetch_request_def ex_batch_def ex_print_hist_internal)
       (simp add: ex_etx_def)
  have h7: "block_listener ?E 7 w =
              w\<lparr>getBlock_calls := getBlock_calls w @ [7],
                 console := console w @ [Log T_new_internal [], Log T_block [N 7],
                    Log T_parent_tx [S ''0xp7''], Log T_from [S ''0xab''], Log T_to [S ''0xcd''],
                    Log T_value_eth [S ''0.000000000000000005''], Log T_type [S ''call'']],
                 requests := requests w @ [fetch_request ?E txlistinternal ''0xab'' 7 7 1000]\<rparr>" for w
    by (simp add: block_listener_def handleBlock_eq ex_env_fields ex_node_def internal_try_def
          fetchInternalTxs_eq ex_indexer_def ex_ok_def result_or_empty_def fetch_request_def
          ex_env_WATCH ethers_block_lines ex_batch_def)
       (simp add: ex_etx_def print_new_internal_def console_log_def fmtEth_def ex_env_def
          or_call_def truthy_def)
  have h9: "block_listener ?E 9 w =
              w\<lparr>getBlock_calls := getBlock_calls w @ [9],
                 requests := requests w @ [fetch_request ?E txlistinternal ''0xab'' 9 9 1000]\<rparr>" for w
    by (simp add: block_listener_def handleBlock_eq ex_env_fields ex_node_def internal_try_def
          fetchInternalTxs_eq ex_indexer_def ex_ok_def result_or_empty_def fetch_request_def
          ex_env_WATCH ethers_block_lines ex_batch_def)
       (simp add: ex_etx_def)?
  let ?w2 = "fst (liveMonitor ?E (WATCH ?E) ?wH)"
  have evs: "[NewBlock 7, Reply 0, Reply 0, NewBlock 9, Reply 0, Reply 0] = one_by_one [7, 9]"
    by (simp add: one_by_one_def)
  have w2: "block_listeners ?w2 = 1" "\<not> ws_closed ?w2" "exit_code ?w2 = None" "pending ?w2 = []"
    by (simp_all add: liveMonitor_eq world0_fields)
  have "main ?E (one_by_one [7, 9]) = block_listener ?E 9 (block_listener ?E 7 ?w2)"
    using main_success [OF ex_env_complete p, of "one_by_one [7, 9]"]
      foldl_one_by_one [OF w2, of ?E "[7, 9]"]
    by simp
  then show ?thesis
    unfolding evs by (simp add: h7 h9 liveMonitor_eq ex_env_fields world0_fields ex_env_WATCH)
qed

section \<open>Failure of the internal-transaction query\<close>

text \<open>
  C3, amended. When \<^verbatim>\<open>getBlock\<close> has returned and the internal-transaction query for the
  block fails, what the loop of \<^verbatim>\<open>handleBlock\<close> over the block has printed stays printed;
  \<^verbatim>\<open>handleBlock\<close> logs the failure and returns normally; the block listener reports no block error and
  stays registered, and the failure does not end the process. Besides the console and the
  two call logs nothing changes: the script has no cursor to advance.
\<close>

theorem handleBlock_internal_failure_isolated:
  assumes "http_getBlock en (length (getBlock_calls w)) bn = Inr blk"
    and "snd (fetchInternalTxs en (WATCH en) bn bn 1000 w) = Inl e"
  shows "handleBlock en bn w =
           (w\<lparr>getBlock_calls := getBlock_calls w @ [bn],
              console := console w @ normal_lines en bn (block_txs blk)
                           @ [Err T_internal_fetch_error [E e]],
              requests := requests w @ [fetch_request en txlistinternal (WATCH en) bn bn 1000]\<rparr>,
            Inr ())
         \<and> block_listener en bn w = fst (handleBlock en bn w)
         \<and> block_listeners (block_listener en bn w) = block_listeners w
         \<and> exit_code (block_listener en bn w) = exit_code w"
proof -
  let ?w2 = "w\<lparr>getBlock_calls := getBlock_calls w @ [bn],
                console := console w @ normal_lines en bn (block_txs blk)\<rparr>"
  from assms(2) have "internal_try en bn ?w2 =
      (?w2\<lparr>requests := requests w @ [fetch_request en txlistinternal (WATCH en) bn bn 1000]\<rparr>, Inl e)"
    by (simp add: internal_try_def fetchInternalTxs_eq split: sum.splits if_splits)
  with assms(1) have hb: "handleBlock en bn w =
           (w\<lparr>getBlock_calls := getBlock_calls w @ [bn],
              console := console w @ normal_lines en bn (block_txs blk)
                           @ [Err T_internal_fetch_error [E e]],
              requests := requests w @ [fetch_request en txlistinternal (WATCH en) bn bn 1000]\<rparr>,
            Inr ())"
    by (simp add: handleBlock_eq console_error_def)
  then show ?thesis by (simp add: block_listener_def)
qed

lemma ex_then_down_backfill:
  "printHistory (ex_env (ex_then_down []) gb) (WATCH (ex_env (ex_then_down []) gb))
       (world0\<lparr>ws_connects := 1\<rparr>) =
     (world0\<lparr>ws_connects := 1,
        console := [Log T_fetching_normal [S ''0xab''], Log T_found_normal [N 0],
                    Log T_fetching_internal [S ''0xab''], Log T_found_internal [N 0]],
        requests := [fetch_request (ex_env (ex_then_down []) gb) txlist ''0xab'' 0 99999999 10000,
                     fetch_request (ex_env (ex_then_down []) gb) txlistinternal ''0xab'' 0 99999999 10000]\<rparr>,
      Inr ())"
  by (simp add: printHistory_def fetchNormalTxs_eq fetchInternalTxs_eq console_log_def
        ex_env_fields ex_then_down_def ex_ok_def ex_none_found_def result_or_empty_def
        slice_last5_def world0_fields fetch_request_def ex_env_WATCH)

theorem handleBlock_internal_failure_isolated_witness:
  "handleBlock (ex_env (ex_then_down []) (ex_node_at 5 [ex_tx ''0xh5'' None (Some ''0xab'')])) 5
     (world0\<lparr>requests := [fetch_request (ex_env (ex_then_down []) (ex_node_at 5 [ex_tx ''0xh5'' None (Some ''0xab'')])) txlist ''0xab'' 0 99999999 10000,
                     fetch_request (ex_env (ex_then_down []) (ex_node_at 5 [ex_tx ''0xh5'' None (Some ''0xab'')])) txlistinternal ''0xab'' 0 99999999 10000]\<rparr>)
   = (world0\<lparr>getBlock_calls := [5],
         console := [Err T_internal_fetch_error [E (NetworkError ''timeout'')]],
         requests := [fetch_request (ex_env (ex_then_down []) (ex_node_at 5 [ex_tx ''0xh5'' None (Some ''0xab'')])) txlist ''0xab'' 0 99999999 10000,
                     fetch_request (ex_env (ex_then_down []) (ex_node_at 5 [ex_tx ''0xh5'' None (Some ''0xab'')])) txlistinternal ''0xab'' 0 99999999 10000,
                     fetch_request (ex_env (ex_then_down []) (ex_node_at 5 [ex_tx ''0xh5'' None (Some ''0xab'')])) txlistinternal ''0xab'' 5 5 1000]\<rparr>,
      Inr ())"
proof -
  let ?E = "ex_env (ex_then_down []) (ex_node_at 5 [ex_tx ''0xh5'' None (Some ''0xab'')])"
  let ?w = "world0\<lparr>requests := [fetch_request ?E txlist ''0xab'' 0 99999999 10000,
                     fetch_request ?E txlistinternal ''0xab'' 0 99999999 10000]\<rparr>"
  have g: "http_getBlock ?E (length (getBlock_calls ?w)) 5
             = Inr (Some (ethers_block [ex_tx ''0xh5'' None (Some ''0xab'')]))"
    by (simp add: ex_env_fields ex_node_at_def)
  have f: "snd (fetchInternalTxs ?E (WATCH ?E) 5 5 1000 ?w) = Inl (NetworkError ''timeout'')"
    by (simp add: fetchInternalTxs_eq ex_env_fields ex_then_down_def)
  have n: "normal_lines ?E 5 (block_txs (Some (ethers_block [ex_tx ''0xh5'' None (Some ''0xab'')]))) = []"
    by (simp add: ethers_block_lines ex_env_WATCH)
  from handleBlock_internal_failure_isolated [OF g f] show ?thesis
    by (simp add: n world0_fields ex_env_WATCH)
qed

text \<open>
  C3, as the claim states it, fails in its last part: with the indexer down, block 5 is
  delivered twice and handled twice, the node asked for it and the failed query logged
  both times. Had a cursor moved to 5 after the first delivery, the second would have
  been skipped.
\<close>

theorem redelivered_block_counterexample:
  "console (main (ex_env (ex_then_down []) (ex_node_at 5 [ex_tx ''0xh5'' None (Some ''0xab'')]))
              [NewBlock 5, Reply 0, Reply 0, NewBlock 5, Reply 0, Reply 0]) =
     [Log T_fetching_normal [S ''0xab''], Log T_found_normal [N 0],
      Log T_fetching_internal [S ''0xab''], Log T_found_internal [N 0],
      Log T_live_monitoring [S ''0xab''],
      Err T_internal_fetch_error [E (NetworkError ''timeout'')],
      Err T_internal_fetch_error [E (NetworkError ''timeout'')]]
   \<and> getBlock_calls (main (ex_env (ex_then_down []) (ex_node_at 5 [ex_tx ''0xh5'' None (Some ''0xab'')]))
              [NewBlock 5, Reply 0, Reply 0, NewBlock 5, Reply 0, Reply 0]) = [5, 5]"
proof -
  let ?E = "ex_env (ex_then_down []) (ex_node_at 5 [ex_tx ''0xh5'' None (Some ''0xab'')])"
  let ?wH = "world0\<lparr>ws_connects := 1,
        console := [Log T_fetching_normal [S ''0xab''], Log T_found_normal [N 0],
                    Log T_fetching_internal [S ''0xab''], Log T_found_internal [N 0]],
        requests := [fetch_request ?E txlist ''0xab'' 0 99999999 10000,
                     fetch_request ?E txlistinternal ''0xab'' 0 99999999 10000]\<rparr>"
  have h5: "2 \<le> length (requests w) \<Longrightarrow> block_listener ?E 5 w =
              w\<lparr>getBlock_calls := getBlock_calls w @ [5],
                 console := console w @ [Err T_internal_fetch_error [E (NetworkError ''timeout'')]],
                 requests := requests w @ [fetch_request ?E txlistinternal ''0xab'' 5 5 1000]\<rparr>" for w
    by (simp add: block_listener_def handleBlock_eq ex_env_fields ex_node_at_def internal_try_def
          fetchInternalTxs_eq ex_then_down_def console_error_def
          ex_env_WATCH ethers_block_lines)
  let ?w2 = "fst (liveMonitor ?E (WATCH ?E) ?wH)"
  have evs: "[NewBlock 5, Reply 0, Reply 0, NewBlock 5, Reply 0, Reply 0] = one_by_one [5, 5]"
    by (simp add: one_by_one_def)
  have w2: "block_listeners ?w2 = 1" "\<not> ws_closed ?w2" "exit_code ?w2 = None" "pending ?w2 = []"
    by (simp_all add: liveMonitor_eq world0_fields)
  have "main ?E (one_by_one [5, 5]) = block_listener ?E 5 (block_listener ?E 5 ?w2)"
    using main_success [OF ex_env_complete ex_then_down_backfill, of "ex_node_at 5 [ex_tx ''0xh5'' None (Some ''0xab'')]" "one_by_one [5, 5]"]
      foldl_one_by_one [OF w2, of ?E "[5, 5]"]
    by simp
  then show ?thesis
    unfolding evs by (simp add: h5 liveMonitor_eq ex_env_fields world0_fields ex_env_WATCH)
qed

end
